theory Spec2Isabelle
  imports Complex_Main "HOL-Library.AList"
begin

section \<open>JavaScript values and the operators the importer uses\<close>

text \<open>
  \<^verbatim>\<open>importFromT3D\<close> reads \<^verbatim>\<open>scene.json\<close> with \<^verbatim>\<open>JSON.parse\<close> and casts the result to
  \<^verbatim>\<open>T3DScene\<close>; nothing checks the cast, so at run time the document is an arbitrary
  JSON value. Values are modelled as trees: the importer never writes to the document.
  A number is the rational a finite double denotes (the importer copies, compares and
  prints numbers, and does no arithmetic on them); an object is the list of its own
  properties, looked up by \<open>map_of\<close>; \<open>Undefined\<close> is what reading a missing
  property gives. A string is the list of its characters.
\<close>

datatype jsval =
    Undefined
  | Null
  | Bool bool
  | Num rat
  | Str string
  | Arr "jsval list"
  | Obj "(string \<times> jsval) list"

text \<open>
  What a \<^verbatim>\<open>throw\<close> can carry: an \<^verbatim>\<open>Error\<close> made by \<^verbatim>\<open>new Error(message)\<close>, a
  \<^verbatim>\<open>TypeError\<close> raised by the engine (its message is engine specific and not modelled),
  or any value that is not an instance of \<^verbatim>\<open>Error\<close>.
\<close>

datatype thrown =
    Error string
  | TypeError
  | NonError jsval

fun instanceof_Error :: "thrown \<Rightarrow> bool" where
  "instanceof_Error (Error m) = True"
| "instanceof_Error TypeError = True"
| "instanceof_Error (NonError v) = False"

text \<open>Sequencing of computations that may throw: the first throw ends the sequence.\<close>

definition bindE :: "thrown + 'a \<Rightarrow> ('a \<Rightarrow> thrown + 'b) \<Rightarrow> thrown + 'b" where
  "bindE m f = (case m of Inl e \<Rightarrow> Inl e | Inr a \<Rightarrow> f a)"

fun mapE :: "('a \<Rightarrow> thrown + 'b) \<Rightarrow> 'a list \<Rightarrow> thrown + 'b list" where
  "mapE f [] = Inr []"
| "mapE f (a # as) = bindE (f a) (\<lambda>b. bindE (mapE f as) (\<lambda>bs. Inr (b # bs)))"

text \<open>\<^verbatim>\<open>!v\<close> is \<open>\<not> truthy v\<close>.\<close>

fun truthy :: "jsval \<Rightarrow> bool" where
  "truthy Undefined = False"
| "truthy Null = False"
| "truthy (Bool b) = b"
| "truthy (Num n) = (n \<noteq> 0)"
| "truthy (Str s) = (s \<noteq> [])"
| "truthy (Arr xs) = True"
| "truthy (Obj kvs) = True"

fun nullish :: "jsval \<Rightarrow> bool" where
  "nullish Undefined = True"
| "nullish Null = True"
| "nullish v = False"

text \<open>\<^verbatim>\<open>a ?? b\<close>\<close>

definition nullish_coalesce :: "jsval \<Rightarrow> jsval \<Rightarrow> jsval" where
  "nullish_coalesce a b = (if nullish a then b else a)"

text \<open>
  \<^verbatim>\<open>v.k\<close> for the property names the importer reads. Reading a property of
  \<^verbatim>\<open>undefined\<close> or \<^verbatim>\<open>null\<close> throws a \<^verbatim>\<open>TypeError\<close>; a primitive or an array has none of
  these names (\<^verbatim>\<open>keys\<close> of an array is a built-in function, on which the importer's
  next step, \<^verbatim>\<open>.map\<close>, throws as it does on \<^verbatim>\<open>undefined\<close>).
\<close>

definition get :: "jsval \<Rightarrow> string \<Rightarrow> thrown + jsval" where
  "get v k =
     (case v of
        Undefined \<Rightarrow> Inl TypeError
      | Null \<Rightarrow> Inl TypeError
      | Obj kvs \<Rightarrow> Inr (case map_of kvs k of None \<Rightarrow> Undefined | Some w \<Rightarrow> w)
      | _ \<Rightarrow> Inr Undefined)"

text \<open>
  \<^verbatim>\<open>a.map(f)\<close>: only an array has a callable \<^verbatim>\<open>map\<close>; on anything else the call throws
  a \<^verbatim>\<open>TypeError\<close>.
\<close>

definition method_map :: "jsval \<Rightarrow> (jsval \<Rightarrow> thrown + 'a) \<Rightarrow> thrown + 'a list" where
  "method_map a f = (case a of Arr xs \<Rightarrow> mapE f xs | _ \<Rightarrow> Inl TypeError)"

text \<open>
  \<^verbatim>\<open>[...v]\<close>: an array is copied element by element, a string is spread into its
  characters, and no other JSON value is iterable.
\<close>

definition spread :: "jsval \<Rightarrow> thrown + jsval list" where
  "spread v =
     (case v of
        Arr xs \<Rightarrow> Inr xs
      | Str s \<Rightarrow> Inr (map (\<lambda>c. Str [c]) s)
      | _ \<Rightarrow> Inl TypeError)"

text \<open>
  The string conversion of template literals and of property keys. \<open>nts\<close> is the
  engine's \<^verbatim>\<open>Number::toString\<close>. An array is joined with commas, \<^verbatim>\<open>undefined\<close> and
  \<^verbatim>\<open>null\<close> elements printing as the empty string; a plain object prints as
  \<^verbatim>\<open>[object Object]\<close>, unless it has an own property \<^verbatim>\<open>toString\<close>: that property is JSON
  data, not a function, and the conversion then throws a \<^verbatim>\<open>TypeError\<close>.
\<close>

fun to_string :: "(rat \<Rightarrow> string) \<Rightarrow> jsval \<Rightarrow> thrown + string"
  and join :: "(rat \<Rightarrow> string) \<Rightarrow> jsval list \<Rightarrow> thrown + string" where
  "to_string nts Undefined = Inr ''undefined''"
| "to_string nts Null = Inr ''null''"
| "to_string nts (Bool b) = Inr (if b then ''true'' else ''false'')"
| "to_string nts (Num n) = Inr (nts n)"
| "to_string nts (Str s) = Inr s"
| "to_string nts (Arr xs) = join nts xs"
| "to_string nts (Obj kvs) =
     (if map_of kvs ''toString'' = None then Inr ''[object Object]'' else Inl TypeError)"
| "join nts [] = Inr []"
| "join nts (v # vs) =
     bindE (if nullish v then Inr [] else to_string nts v) (\<lambda>s.
     if vs = [] then Inr s
     else bindE (join nts vs) (\<lambda>r. Inr (s @ '','' @ r)))"

section \<open>The internal geometry types\<close>

text \<open>
  The records of \<^verbatim>\<open>../types/geometry\<close> as the converters build them. A field that
  the converter copies from the document holds whatever value the document has there.
\<close>

record Vector3 =
  v3_x :: jsval
  v3_y :: jsval
  v3_z :: jsval

record Vector2 =
  v2_x :: jsval
  v2_y :: jsval

record Vertex =
  vertex_id :: jsval
  vertex_position :: Vector3
  vertex_normal :: Vector3
  vertex_uv :: Vector2
  vertex_selected :: jsval

record Edge =
  edge_id :: jsval
  edge_vertexIds :: jsval
  edge_faceIds :: "jsval list"
  edge_selected :: jsval

record Face =
  face_id :: jsval
  face_vertexIds :: "jsval list"
  face_normal :: Vector3
  face_materialId :: jsval
  face_selected :: jsval

record Transform =
  transform_position :: Vector3
  transform_rotation :: Vector3
  transform_scale :: Vector3

record Mesh =
  mesh_id :: jsval
  mesh_name :: jsval
  mesh_vertices :: "Vertex list"
  mesh_edges :: "Edge list"
  mesh_faces :: "Face list"
  mesh_transform :: Transform
  mesh_visible :: jsval
  mesh_locked :: jsval

record Material =
  material_id :: jsval
  material_name :: jsval
  material_color :: Vector3
  material_roughness :: jsval
  material_metalness :: jsval
  material_emissive :: Vector3
  material_emissiveIntensity :: jsval

record SceneObject =
  object_id :: jsval
  object_name :: jsval
  object_type :: jsval
  object_parentId :: jsval
  object_children :: "jsval list"
  object_transform :: Transform
  object_visible :: jsval
  object_locked :: jsval
  object_render :: jsval
  object_meshId :: jsval
  object_lightId :: jsval
  object_cameraId :: jsval

record Camera =
  camera_position :: Vector3
  camera_target :: Vector3
  camera_up :: Vector3
  camera_fov :: jsval
  camera_near :: jsval
  camera_far :: jsval

record ViewportState =
  viewport_camera :: Camera
  viewport_shadingMode :: jsval
  viewport_showGrid :: jsval
  viewport_showAxes :: jsval
  viewport_gridSize :: jsval
  viewport_backgroundColor :: Vector3
  viewport_activeCameraObjectId :: jsval

section \<open>The entity converters\<close>

definition t3dToVector3 :: "jsval \<Rightarrow> thrown + Vector3" where
  "t3dToVector3 v =
     bindE (get v ''x'') (\<lambda>vx.
     bindE (get v ''y'') (\<lambda>vy.
     bindE (get v ''z'') (\<lambda>vz.
     Inr \<lparr>v3_x = vx, v3_y = vy, v3_z = vz\<rparr>)))"

definition t3dToVector2 :: "jsval \<Rightarrow> thrown + Vector2" where
  "t3dToVector2 v =
     bindE (get v ''x'') (\<lambda>vx.
     bindE (get v ''y'') (\<lambda>vy.
     Inr \<lparr>v2_x = vx, v2_y = vy\<rparr>))"

definition t3dToVertex :: "jsval \<Rightarrow> thrown + Vertex" where
  "t3dToVertex vertex =
     bindE (get vertex ''id'') (\<lambda>i.
     bindE (bindE (get vertex ''position'') t3dToVector3) (\<lambda>p.
     bindE (bindE (get vertex ''normal'') t3dToVector3) (\<lambda>n.
     bindE (bindE (get vertex ''uv'') t3dToVector2) (\<lambda>u.
     bindE (get vertex ''selected'') (\<lambda>s.
     Inr \<lparr>vertex_id = i, vertex_position = p, vertex_normal = n, vertex_uv = u,
          vertex_selected = s\<rparr>)))))"

definition t3dToEdge :: "jsval \<Rightarrow> thrown + Edge" where
  "t3dToEdge edge =
     bindE (get edge ''id'') (\<lambda>i.
     bindE (get edge ''vertexIds'') (\<lambda>vs.
     bindE (bindE (get edge ''faceIds'') spread) (\<lambda>fs.
     bindE (get edge ''selected'') (\<lambda>s.
     Inr \<lparr>edge_id = i, edge_vertexIds = vs, edge_faceIds = fs, edge_selected = s\<rparr>))))"

definition t3dToFace :: "jsval \<Rightarrow> thrown + Face" where
  "t3dToFace face =
     bindE (get face ''id'') (\<lambda>i.
     bindE (bindE (get face ''vertexIds'') spread) (\<lambda>vs.
     bindE (bindE (get face ''normal'') t3dToVector3) (\<lambda>n.
     bindE (get face ''materialId'') (\<lambda>m.
     bindE (get face ''selected'') (\<lambda>s.
     Inr \<lparr>face_id = i, face_vertexIds = vs, face_normal = n, face_materialId = m,
          face_selected = s\<rparr>)))))"

definition t3dToTransform :: "jsval \<Rightarrow> thrown + Transform" where
  "t3dToTransform t =
     bindE (bindE (get t ''position'') t3dToVector3) (\<lambda>p.
     bindE (bindE (get t ''rotation'') t3dToVector3) (\<lambda>r.
     bindE (bindE (get t ''scale'') t3dToVector3) (\<lambda>s.
     Inr \<lparr>transform_position = p, transform_rotation = r, transform_scale = s\<rparr>)))"

definition t3dToMesh :: "jsval \<Rightarrow> thrown + Mesh" where
  "t3dToMesh t3dMesh =
     bindE (bindE (get t3dMesh ''vertices'') (\<lambda>a. method_map a t3dToVertex)) (\<lambda>vertices.
     bindE (bindE (get t3dMesh ''edges'') (\<lambda>a. method_map a t3dToEdge)) (\<lambda>edges.
     bindE (bindE (get t3dMesh ''faces'') (\<lambda>a. method_map a t3dToFace)) (\<lambda>faces.
     bindE (bindE (get t3dMesh ''transform'') t3dToTransform) (\<lambda>transform.
     bindE (get t3dMesh ''id'') (\<lambda>i.
     bindE (get t3dMesh ''name'') (\<lambda>n.
     bindE (get t3dMesh ''visible'') (\<lambda>vis.
     bindE (get t3dMesh ''locked'') (\<lambda>l.
     Inr \<lparr>mesh_id = i, mesh_name = n, mesh_vertices = vertices, mesh_edges = edges,
          mesh_faces = faces, mesh_transform = transform, mesh_visible = vis,
          mesh_locked = l\<rparr>))))))))"

definition t3dToMaterial :: "jsval \<Rightarrow> thrown + Material" where
  "t3dToMaterial t3dMaterial =
     bindE (get t3dMaterial ''id'') (\<lambda>i.
     bindE (get t3dMaterial ''name'') (\<lambda>n.
     bindE (bindE (get t3dMaterial ''color'') t3dToVector3) (\<lambda>c.
     bindE (get t3dMaterial ''roughness'') (\<lambda>r.
     bindE (get t3dMaterial ''metalness'') (\<lambda>m.
     bindE (bindE (get t3dMaterial ''emissive'') t3dToVector3) (\<lambda>e.
     bindE (get t3dMaterial ''emissiveIntensity'') (\<lambda>ei.
     Inr \<lparr>material_id = i, material_name = n, material_color = c,
          material_roughness = r, material_metalness = m, material_emissive = e,
          material_emissiveIntensity = nullish_coalesce ei (Num 1)\<rparr>)))))))"

definition t3dToSceneObject :: "jsval \<Rightarrow> thrown + SceneObject" where
  "t3dToSceneObject t3dObject =
     bindE (bindE (get t3dObject ''transform'') t3dToTransform) (\<lambda>transform.
     bindE (get t3dObject ''id'') (\<lambda>i.
     bindE (get t3dObject ''name'') (\<lambda>n.
     bindE (get t3dObject ''type'') (\<lambda>ty.
     bindE (get t3dObject ''parentId'') (\<lambda>p.
     bindE (bindE (get t3dObject ''children'') spread) (\<lambda>cs.
     bindE (get t3dObject ''visible'') (\<lambda>vis.
     bindE (get t3dObject ''locked'') (\<lambda>l.
     bindE (get t3dObject ''render'') (\<lambda>r.
     bindE (get t3dObject ''meshId'') (\<lambda>m.
     bindE (get t3dObject ''lightId'') (\<lambda>li.
     bindE (get t3dObject ''cameraId'') (\<lambda>ca.
     Inr \<lparr>object_id = i, object_name = n, object_type = ty, object_parentId = p,
          object_children = cs, object_transform = transform, object_visible = vis,
          object_locked = l, object_render = nullish_coalesce r (Bool True),
          object_meshId = m, object_lightId = li, object_cameraId = ca\<rparr>))))))))))))"

definition t3dToCamera :: "jsval \<Rightarrow> thrown + Camera" where
  "t3dToCamera c =
     bindE (bindE (get c ''position'') t3dToVector3) (\<lambda>p.
     bindE (bindE (get c ''target'') t3dToVector3) (\<lambda>t.
     bindE (bindE (get c ''up'') t3dToVector3) (\<lambda>u.
     bindE (get c ''fov'') (\<lambda>fov.
     bindE (get c ''near'') (\<lambda>near.
     bindE (get c ''far'') (\<lambda>far.
     Inr \<lparr>camera_position = p, camera_target = t, camera_up = u, camera_fov = fov,
          camera_near = near, camera_far = far\<rparr>))))))"

definition t3dToViewport :: "jsval \<Rightarrow> thrown + ViewportState" where
  "t3dToViewport t3dViewport =
     bindE (bindE (get t3dViewport ''camera'') t3dToCamera) (\<lambda>cam.
     bindE (get t3dViewport ''shadingMode'') (\<lambda>sm.
     bindE (get t3dViewport ''showGrid'') (\<lambda>sg.
     bindE (get t3dViewport ''showAxes'') (\<lambda>sa.
     bindE (get t3dViewport ''gridSize'') (\<lambda>gs.
     bindE (bindE (get t3dViewport ''backgroundColor'') t3dToVector3) (\<lambda>bg.
     bindE (get t3dViewport ''activeCameraObjectId'') (\<lambda>ac.
     Inr \<lparr>viewport_camera = cam, viewport_shadingMode = sm, viewport_showGrid = sg,
          viewport_showAxes = sa, viewport_gridSize = gs, viewport_backgroundColor = bg,
          viewport_activeCameraObjectId = nullish_coalesce ac Null\<rparr>)))))))"

section \<open>The imported workspace\<close>

record Metadata =
  metadata_version :: string
  metadata_created :: jsval
  metadata_modified :: jsval
  metadata_author :: jsval
  metadata_description :: jsval
  metadata_application :: jsval
  metadata_applicationVersion :: jsval

text \<open>
  \<^verbatim>\<open>ImportedWorkspaceData\<close>. The optional \<^verbatim>\<open>lights\<close> and \<^verbatim>\<open>cameras\<close> are \<open>None\<close> when
  the importer stores \<^verbatim>\<open>undefined\<close> there, and otherwise the object built by
  \<^verbatim>\<open>Object.fromEntries\<close>, as the list of its properties.
\<close>

record ImportedWorkspaceData =
  meshes :: "Mesh list"
  materials :: "Material list"
  objects :: "SceneObject list"
  rootObjects :: "jsval list"
  viewport :: ViewportState
  selectedObjectId :: jsval
  lights :: "(string \<times> jsval) list option"
  cameras :: "(string \<times> jsval) list option"
  metadata :: Metadata

section \<open>What the importer takes from outside\<close>

text \<open>
  \<^verbatim>\<open>T3D_VERSION\<close> is a constant of \<^verbatim>\<open>../types/t3d\<close>, which declares its three
  components as numbers.
\<close>

record Version =
  major :: rat
  minor :: rat
  patch :: rat

text \<open>
  The archive read by \<^verbatim>\<open>JSZip\<close>: \<^verbatim>\<open>zip.file(name)\<close> is \<open>None\<close> for \<^verbatim>\<open>null\<close>, and
  otherwise the outcome of reading that entry with \<^verbatim>\<open>async('text')\<close>.
\<close>

type_synonym zip = "string \<Rightarrow> (thrown + string) option"

text \<open>
  The constant, the engine's \<^verbatim>\<open>JSON.parse\<close> (\<open>None\<close> when it throws its
  \<^verbatim>\<open>SyntaxError\<close>) and \<^verbatim>\<open>Number::toString\<close>, \<^verbatim>\<open>JSZip\<close>'s \<^verbatim>\<open>loadAsync\<close>, and the
  animation store's action \<^verbatim>\<open>setActiveClip\<close>, which may change the store in any way and
  may throw. The importer is modelled for every choice of them.
\<close>

record ('f, 's) env =
  T3D_VERSION :: Version
  JSON_parse :: "string \<Rightarrow> jsval option"
  Number_toString :: "rat \<Rightarrow> string"
  loadAsync :: "'f \<Rightarrow> thrown + zip"
  setActiveClip :: "jsval \<Rightarrow> 's \<Rightarrow> thrown option \<times> 's"

section \<open>The primary result of \<^verbatim>\<open>importFromT3D\<close>\<close>

text \<open>\<^verbatim>\<open>v === n\<close> for a number \<open>n\<close>.\<close>

definition strict_eq_num :: "jsval \<Rightarrow> rat \<Rightarrow> bool" where
  "strict_eq_num v n = (case v of Num m \<Rightarrow> m = n | _ \<Rightarrow> False)"

definition isVersionCompatible :: "Version \<Rightarrow> jsval \<Rightarrow> thrown + bool" where
  "isVersionCompatible current version =
     bindE (get version ''major'') (\<lambda>m. Inr (strict_eq_num m (major current)))"

text \<open>The template literal \<^verbatim>\<open>`${v.major}.${v.minor}.${v.patch}`\<close>.\<close>

definition version_string :: "(rat \<Rightarrow> string) \<Rightarrow> jsval \<Rightarrow> thrown + string" where
  "version_string nts v =
     bindE (bindE (get v ''major'') (to_string nts)) (\<lambda>a.
     bindE (bindE (get v ''minor'') (to_string nts)) (\<lambda>b.
     bindE (bindE (get v ''patch'') (to_string nts)) (\<lambda>c.
     Inr (a @ ''.'' @ b @ ''.'' @ c))))"

definition current_version_string :: "(rat \<Rightarrow> string) \<Rightarrow> Version \<Rightarrow> string" where
  "current_version_string nts current =
     nts (major current) @ ''.'' @ nts (minor current) @ ''.'' @ nts (patch current)"

text \<open>
  \<^verbatim>\<open>Object.fromEntries\<close>: the entries are stored in order under the string of their
  key, a later entry replacing the value of an earlier one with the same key. The list
  keeps the keys in the order in which they were first stored; the order in which an
  object enumerates its keys is not modelled.
\<close>

fun fromEntries :: "(rat \<Rightarrow> string) \<Rightarrow> (string \<times> jsval) list \<Rightarrow> (jsval \<times> jsval) list
    \<Rightarrow> thrown + (string \<times> jsval) list" where
  "fromEntries nts acc [] = Inr acc"
| "fromEntries nts acc ((k, v) # es) =
     bindE (to_string nts k) (\<lambda>key. fromEntries nts (AList.update key v acc) es)"

text \<open>\<^verbatim>\<open>arr ? Object.fromEntries(arr.map((l) => [l.id, l])) : undefined\<close>\<close>

definition resource_record :: "(rat \<Rightarrow> string) \<Rightarrow> jsval \<Rightarrow> thrown + (string \<times> jsval) list option" where
  "resource_record nts arr =
     (if truthy arr
      then bindE (method_map arr (\<lambda>l. bindE (get l ''id'') (\<lambda>i. Inr (i, l)))) (\<lambda>entries.
           bindE (fromEntries nts [] entries) (\<lambda>r. Inr (Some r)))
      else Inr None)"


text \<open>
  Lines 218 to 236: load the archive, find \<^verbatim>\<open>scene.json\<close>, read and parse it.
\<close>

definition read_scene :: "('f, 's) env \<Rightarrow> 'f \<Rightarrow> thrown + jsval" where
  "read_scene env file =
     bindE (loadAsync env file) (\<lambda>zipContents.
     case zipContents ''scene.json'' of
       None \<Rightarrow> Inl (Error ''Invalid T3D file: scene.json not found'')
     | Some sceneFile \<Rightarrow>
     bindE sceneFile (\<lambda>sceneJsonText.
     case JSON_parse env sceneJsonText of
       None \<Rightarrow> Inl (Error ''Invalid T3D file: scene.json is not valid JSON'')
     | Some t3dScene \<Rightarrow> Inr t3dScene))"

text \<open>
  Lines 238 to 248: the structure check and the version check. The four operands of
  the structure check read properties of the same value, so either the first of them
  throws or none does.
\<close>

definition validate_scene :: "('f, 's) env \<Rightarrow> jsval \<Rightarrow> thrown + unit" where
  "validate_scene env t3dScene =
     bindE (get t3dScene ''metadata'') (\<lambda>md.
     bindE (get t3dScene ''meshes'') (\<lambda>t3dMeshes.
     bindE (get t3dScene ''materials'') (\<lambda>t3dMaterials.
     bindE (get t3dScene ''objects'') (\<lambda>t3dObjects.
     if \<not> truthy md \<or> \<not> truthy t3dMeshes \<or> \<not> truthy t3dMaterials \<or> \<not> truthy t3dObjects
     then Inl (Error ''Invalid T3D file: missing required data'')
     else
     bindE (get md ''version'') (\<lambda>version.
     bindE (isVersionCompatible (T3D_VERSION env) version) (\<lambda>compatible.
     if \<not> compatible
     then bindE (version_string (Number_toString env) version) (\<lambda>versionString.
          Inl (Error (''Incompatible T3D version: '' @ versionString @ ''. Current version: ''
                      @ current_version_string (Number_toString env) (T3D_VERSION env))))
     else Inr ()))))))"

text \<open>Lines 250 to 280: the conversions and the assembled result.\<close>

definition convert_scene :: "('f, 's) env \<Rightarrow> jsval \<Rightarrow> thrown + ImportedWorkspaceData" where
  "convert_scene env t3dScene =
     bindE (bindE (get t3dScene ''meshes'') (\<lambda>a. method_map a t3dToMesh)) (\<lambda>ms.
     bindE (bindE (get t3dScene ''materials'') (\<lambda>a. method_map a t3dToMaterial)) (\<lambda>mats.
     bindE (bindE (get t3dScene ''objects'') (\<lambda>a. method_map a t3dToSceneObject)) (\<lambda>objs.
     bindE (bindE (get t3dScene ''viewport'') t3dToViewport) (\<lambda>vp.
     bindE (bindE (get t3dScene ''lights'') (resource_record (Number_toString env))) (\<lambda>lightsRec.
     bindE (bindE (get t3dScene ''cameras'') (resource_record (Number_toString env))) (\<lambda>camsRec.
     bindE (bindE (get t3dScene ''rootObjects'') spread) (\<lambda>roots.
     bindE (get t3dScene ''selectedObjectId'') (\<lambda>sel.
     bindE (get t3dScene ''metadata'') (\<lambda>md.
     bindE (bindE (get md ''version'') (version_string (Number_toString env))) (\<lambda>vstr.
     bindE (get md ''created'') (\<lambda>created.
     bindE (get md ''modified'') (\<lambda>modified.
     bindE (get md ''author'') (\<lambda>author.
     bindE (get md ''description'') (\<lambda>description.
     bindE (get md ''application'') (\<lambda>application.
     bindE (get md ''applicationVersion'') (\<lambda>applicationVersion.
     Inr \<lparr>meshes = ms, materials = mats, objects = objs, rootObjects = roots,
          viewport = vp, selectedObjectId = sel, lights = lightsRec, cameras = camsRec,
          metadata = \<lparr>metadata_version = vstr, metadata_created = created,
                      metadata_modified = modified, metadata_author = author,
                      metadata_description = description,
                      metadata_application = application,
                      metadata_applicationVersion = applicationVersion\<rparr>\<rparr>
     ))))))))))))))))"

text \<open>
  Lines 218 to 280 as a whole: the parsed document, which the animation block reads
  next, and the result.
\<close>

definition import_primary :: "('f, 's) env \<Rightarrow> 'f \<Rightarrow> thrown + (jsval \<times> ImportedWorkspaceData)" where
  "import_primary env file =
     bindE (read_scene env file) (\<lambda>t3dScene.
     bindE (validate_scene env t3dScene) (\<lambda>_.
     bindE (convert_scene env t3dScene) (\<lambda>result.
     Inr (t3dScene, result))))"

section \<open>The animation store\<close>

text \<open>What the importer writes into the store for a key, a channel, a track and a clip.\<close>

record Key =
  key_id :: jsval
  key_t :: jsval
  key_v :: jsval
  key_interp :: jsval

record Channel =
  channel_id :: string
  channel_keys :: "Key list"

record Track =
  track_id :: jsval
  track_targetType :: string
  track_targetId :: jsval
  track_property :: jsval
  track_channel :: Channel

record Clip =
  clip_id :: jsval
  clip_name :: jsval
  clip_start :: jsval
  clip_end :: jsval
  clip_loop :: jsval
  clip_speed :: jsval
  clip_trackIds :: "jsval list"

text \<open>
  Modelled from the spec: the state of the animation store, whose module
  \<^verbatim>\<open>@/stores/animation-store\<close> is not among the sources. The fields are those the
  importer assigns or names (\<open>sortedCache\<close> is \<^verbatim>\<open>_sortedCache\<close>), with \<^verbatim>\<open>autoKey\<close> and
  \<^verbatim>\<open>snapping\<close> the UI preferences of the specification; whatever else the store holds,
  its actions included, is the extension part of the record.
\<close>

record anim_state =
  playing :: bool
  playhead :: rat
  selection :: jsval
  clips :: "(string \<times> Clip) list"
  clipOrder :: "jsval list"
  activeClipId :: jsval
  tracks :: "(string \<times> Track) list"
  sortedCache :: "(string \<times> jsval) list"
  markers :: "jsval list"
  soloTrackIds :: "jsval set"
  fps :: jsval
  autoKey :: jsval
  snapping :: jsval
  timelinePanelOpen :: bool
  lastUsedFps :: jsval

text \<open>
  \<^verbatim>\<open>useAnimationStore.setState(recipe, false)\<close>: the recipe works on a draft of the
  state, so a recipe that throws leaves the store as it was. A step on the store gives
  what it threw, if anything, and the store it leaves.
\<close>

definition setState :: "('s \<Rightarrow> thrown + 's) \<Rightarrow> 's \<Rightarrow> thrown option \<times> 's" where
  "setState recipe s = (case recipe s of Inl e \<Rightarrow> (Some e, s) | Inr s' \<Rightarrow> (None, s'))"

definition thenS :: "thrown option \<times> 's \<Rightarrow> ('s \<Rightarrow> thrown option \<times> 's) \<Rightarrow> thrown option \<times> 's" where
  "thenS m k = (case m of (Some e, s) \<Rightarrow> (Some e, s) | (None, s) \<Rightarrow> k s)"

fun forEachS :: "('a \<Rightarrow> 's \<Rightarrow> thrown option \<times> 's) \<Rightarrow> 'a list \<Rightarrow> 's \<Rightarrow> thrown option \<times> 's" where
  "forEachS f [] s = (None, s)"
| "forEachS f (a # as) s = thenS (f a s) (forEachS f as)"

text \<open>\<^verbatim>\<open>forEach\<close> inside one recipe: a throw abandons the recipe.\<close>

fun foldE :: "('a \<Rightarrow> 's \<Rightarrow> thrown + 's) \<Rightarrow> 'a list \<Rightarrow> 's \<Rightarrow> thrown + 's" where
  "foldE f [] s = Inr s"
| "foldE f (a # as) s = bindE (f a s) (foldE f as)"

definition method_forEach :: "jsval \<Rightarrow> (jsval \<Rightarrow> 's \<Rightarrow> thrown + 's) \<Rightarrow> 's \<Rightarrow> thrown + 's" where
  "method_forEach a f s = (case a of Arr xs \<Rightarrow> foldE f xs s | _ \<Rightarrow> Inl TypeError)"

text \<open>\<^verbatim>\<open>v?.\<close> followed by the access \<open>f\<close>\<close>

definition opt_chain :: "jsval \<Rightarrow> (jsval \<Rightarrow> thrown + jsval) \<Rightarrow> thrown + jsval" where
  "opt_chain v f = (if nullish v then Inr Undefined else f v)"

text \<open>\<^verbatim>\<open>v[0]\<close> for a value that is neither \<^verbatim>\<open>undefined\<close> nor \<^verbatim>\<open>null\<close>\<close>

definition index0 :: "jsval \<Rightarrow> jsval" where
  "index0 v =
     (case v of
        Arr xs \<Rightarrow> (case xs of [] \<Rightarrow> Undefined | x # _ \<Rightarrow> x)
      | Str s \<Rightarrow> (case s of [] \<Rightarrow> Undefined | c # _ \<Rightarrow> Str [c])
      | Obj kvs \<Rightarrow> (case map_of kvs ''0'' of None \<Rightarrow> Undefined | Some w \<Rightarrow> w)
      | _ \<Rightarrow> Undefined)"

text \<open>The first recipe, lines 287 to 300.\<close>

definition reset_recipe :: "'a anim_state_scheme \<Rightarrow> 'a anim_state_scheme" where
  "reset_recipe s =
     s\<lparr>playing := False,
       playhead := 0,
       selection := Obj [(''trackIds'', Arr []), (''keys'', Obj [])],
       clips := [],
       clipOrder := [],
       activeClipId := Null,
       tracks := [],
       sortedCache := [],
       markers := [],
       soloTrackIds := {}\<rparr>"

definition fps_recipe :: "jsval \<Rightarrow> 'a anim_state_scheme \<Rightarrow> thrown + 'a anim_state_scheme" where
  "fps_recipe anim s =
     bindE (get anim ''fps'') (\<lambda>f. Inr (s\<lparr>fps := nullish_coalesce f (fps s)\<rparr>))"

definition t3dToKey :: "jsval \<Rightarrow> thrown + Key" where
  "t3dToKey k =
     bindE (get k ''id'') (\<lambda>i.
     bindE (get k ''t'') (\<lambda>t.
     bindE (get k ''v'') (\<lambda>v.
     bindE (get k ''interp'') (\<lambda>ip.
     Inr \<lparr>key_id = i, key_t = t, key_v = v, key_interp = ip\<rparr>))))"

definition track_recipe :: "(rat \<Rightarrow> string) \<Rightarrow> jsval \<Rightarrow> 'a anim_state_scheme
    \<Rightarrow> thrown + 'a anim_state_scheme" where
  "track_recipe nts t s =
     bindE (get t ''id'') (\<lambda>tid.
     bindE (to_string nts tid) (\<lambda>name.
     bindE (get t ''targetId'') (\<lambda>target.
     bindE (get t ''property'') (\<lambda>prop.
     bindE (bindE (get t ''keys'') (\<lambda>ks. method_map ks t3dToKey)) (\<lambda>keys.
     Inr (s\<lparr>tracks := AList.update name
            \<lparr>track_id = tid, track_targetType = ''sceneObject'', track_targetId = target,
             track_property = prop,
             track_channel = \<lparr>channel_id = name @ '':ch'', channel_keys = keys\<rparr>\<rparr>
            (tracks s)\<rparr>))))))"

text \<open>
  The recipe run for one clip, lines 307 to 313. The store's \<^verbatim>\<open>clips\<close> and \<^verbatim>\<open>tracks\<close> are
  objects written by key; the key \<^verbatim>\<open>__proto__\<close> is stored here like any other.
\<close>

definition clip_recipe :: "(rat \<Rightarrow> string) \<Rightarrow> jsval \<Rightarrow> 'a anim_state_scheme
    \<Rightarrow> thrown + 'a anim_state_scheme" where
  "clip_recipe nts c s =
     bindE (get c ''id'') (\<lambda>cid.
     bindE (to_string nts cid) (\<lambda>name.
     bindE (get c ''name'') (\<lambda>cname.
     bindE (get c ''start'') (\<lambda>cstart.
     bindE (get c ''end'') (\<lambda>cend.
     bindE (get c ''loop'') (\<lambda>cloop.
     bindE (get c ''speed'') (\<lambda>cspeed.
     bindE (get c ''tracks'') (\<lambda>ctracks.
     bindE (method_map ctracks (\<lambda>t. get t ''id'')) (\<lambda>tids.
     method_forEach ctracks (track_recipe nts)
       (s\<lparr>clips := AList.update name
            \<lparr>clip_id = cid, clip_name = cname, clip_start = cstart, clip_end = cend,
             clip_loop = cloop, clip_speed = cspeed, clip_trackIds = tids\<rparr>
            (clips s),
          clipOrder := clipOrder s @ [cid]\<rparr>))))))))))"

text \<open>\<^verbatim>\<open>anim.clips?.forEach((c) => useAnimationStore.setState(...))\<close>\<close>

definition populate_clips :: "(rat \<Rightarrow> string) \<Rightarrow> jsval \<Rightarrow> 'a anim_state_scheme
    \<Rightarrow> thrown option \<times> 'a anim_state_scheme" where
  "populate_clips nts anim s =
     (case get anim ''clips'' of
        Inl e \<Rightarrow> (Some e, s)
      | Inr cs \<Rightarrow>
          if nullish cs then (None, s)
          else (case cs of
                  Arr xs \<Rightarrow> forEachS (\<lambda>c. setState (clip_recipe nts c)) xs s
                | _ \<Rightarrow> (Some TypeError, s)))"

text \<open>\<^verbatim>\<open>anim.activeClipId ?? (anim.clips?.[0]?.id ?? null)\<close>\<close>

definition active_clip_argument :: "jsval \<Rightarrow> thrown + jsval" where
  "active_clip_argument anim =
     bindE (get anim ''activeClipId'') (\<lambda>a.
     if \<not> nullish a then Inr a
     else bindE (get anim ''clips'') (\<lambda>cs.
          bindE (opt_chain cs (\<lambda>v. Inr (index0 v))) (\<lambda>first.
          bindE (opt_chain first (\<lambda>v. get v ''id'')) (\<lambda>i.
          Inr (nullish_coalesce i Null)))))"

definition ui_recipe :: "jsval \<Rightarrow> 'a anim_state_scheme \<Rightarrow> thrown + 'a anim_state_scheme" where
  "ui_recipe ui s =
     bindE (get ui ''timelinePanelOpen'') (\<lambda>opn.
     bindE (get ui ''lastUsedFps'') (\<lambda>l.
     Inr (s\<lparr>timelinePanelOpen := truthy opn,
            lastUsedFps := nullish_coalesce l (lastUsedFps s)\<rparr>)))"

text \<open>The body of the inner \<^verbatim>\<open>try\<close>, lines 284 to 322.\<close>

definition animation_block :: "('f, 'a anim_state_scheme) env \<Rightarrow> jsval \<Rightarrow> 'a anim_state_scheme
    \<Rightarrow> thrown option \<times> 'a anim_state_scheme" where
  "animation_block env t3dScene s0 =
     (case get t3dScene ''animations'' of
        Inl e \<Rightarrow> (Some e, s0)
      | Inr anim \<Rightarrow>
     (case get t3dScene ''ui'' of
        Inl e \<Rightarrow> (Some e, s0)
      | Inr ui \<Rightarrow>
     thenS (setState (\<lambda>s. Inr (reset_recipe s)) s0) (\<lambda>s1.
     thenS (if truthy anim
            then thenS (setState (fps_recipe anim) s1) (\<lambda>s2.
                 thenS (populate_clips (Number_toString env) anim s2) (\<lambda>s3.
                 case active_clip_argument anim of
                   Inl e \<Rightarrow> (Some e, s3)
                 | Inr a \<Rightarrow> setActiveClip env a s3))
            else (None, s1)) (\<lambda>s4.
     if truthy ui then setState (ui_recipe ui) s4 else (None, s4)))))"


section \<open>\<^verbatim>\<open>importFromT3D\<close>\<close>

text \<open>
  The importer, from a file and the store as it is to the outcome and the store it
  leaves. The inner \<^verbatim>\<open>catch {}\<close> drops whatever the animation block threw; the outer
  \<^verbatim>\<open>catch\<close> rethrows an instance of \<^verbatim>\<open>Error\<close> and replaces anything else. Every throw
  that reaches the outer \<^verbatim>\<open>catch\<close> comes before the first write to the store.
\<close>

definition importFromT3D :: "('f, 'a anim_state_scheme) env \<Rightarrow> 'f \<Rightarrow> 'a anim_state_scheme
    \<Rightarrow> (thrown + ImportedWorkspaceData) \<times> 'a anim_state_scheme" where
  "importFromT3D env file s =
     (case import_primary env file of
        Inl error \<Rightarrow>
          (Inl (if instanceof_Error error then error
                else Error ''Failed to import T3D file: Unknown error occurred''), s)
      | Inr (t3dScene, result) \<Rightarrow> (Inr result, snd (animation_block env t3dScene s)))"

section \<open>Array identity in the converters\<close>

text \<open>
  Trees of values cannot say whether two sequences are the same array. For that the id
  sequences of a well-typed document live in a store of array objects, an array being
  known by its address, the position at which it was allocated. \<open>elements\<close> reads an
  array that is present; \<open>mutate\<close> is any write in place (\<^verbatim>\<open>push\<close>, \<^verbatim>\<open>splice\<close>, an indexed
  assignment), which leaves the array at that address with new elements;
  \<open>spread_array\<close> is \<^verbatim>\<open>[...a]\<close>, which allocates a new array with the elements of \<open>a\<close>.
\<close>

type_synonym addr = nat

type_synonym arrays = "jsval list list"

definition present :: "arrays \<Rightarrow> addr \<Rightarrow> bool" where
  "present h a \<longleftrightarrow> a < length h"

definition elements :: "arrays \<Rightarrow> addr \<Rightarrow> jsval list" where
  "elements h a = h ! a"

definition mutate :: "addr \<Rightarrow> jsval list \<Rightarrow> arrays \<Rightarrow> arrays" where
  "mutate a xs h = h[a := xs]"

definition new_array :: "jsval list \<Rightarrow> arrays \<Rightarrow> addr \<times> arrays" where
  "new_array xs h = (length h, h @ [xs])"

definition spread_array :: "addr \<Rightarrow> arrays \<Rightarrow> addr \<times> arrays" where
  "spread_array a h = new_array (elements h a) h"

text \<open>
  An edge, a face, a scene object and a mesh with their id sequences as addresses. The
  document's entity and the converted one have the same shape.
\<close>

record edge_ref =
  eref_id :: jsval
  eref_vertexIds :: addr
  eref_faceIds :: addr
  eref_selected :: jsval

record face_ref =
  fref_id :: jsval
  fref_vertexIds :: addr
  fref_normal :: Vector3
  fref_materialId :: jsval
  fref_selected :: jsval

record object_ref =
  oref_id :: jsval
  oref_name :: jsval
  oref_type :: jsval
  oref_parentId :: jsval
  oref_children :: addr
  oref_transform :: Transform
  oref_visible :: jsval
  oref_locked :: jsval
  oref_render :: jsval
  oref_meshId :: jsval
  oref_lightId :: jsval
  oref_cameraId :: jsval

record mesh_ref =
  mref_id :: jsval
  mref_name :: jsval
  mref_vertices :: "Vertex list"
  mref_edges :: "edge_ref list"
  mref_faces :: "face_ref list"
  mref_transform :: Transform
  mref_visible :: jsval
  mref_locked :: jsval

text \<open>\<^verbatim>\<open>Array.prototype.map\<close> with a callback that allocates.\<close>

fun map_ref :: "('a \<Rightarrow> arrays \<Rightarrow> 'b \<times> arrays) \<Rightarrow> 'a list \<Rightarrow> arrays \<Rightarrow> 'b list \<times> arrays" where
  "map_ref f [] h = ([], h)"
| "map_ref f (a # as) h =
     (case f a h of (b, h1) \<Rightarrow> (case map_ref f as h1 of (bs, h2) \<Rightarrow> (b # bs, h2)))"

text \<open>
  The callbacks of lines 89 to 102 and the converter of lines 140 to 161:
  \<^verbatim>\<open>edge.vertexIds\<close> is passed on as it is, and \<^verbatim>\<open>edge.faceIds\<close>, \<^verbatim>\<open>face.vertexIds\<close> and
  \<^verbatim>\<open>t3dObject.children\<close> are spread.
\<close>

definition t3dToEdge_ref :: "edge_ref \<Rightarrow> arrays \<Rightarrow> edge_ref \<times> arrays" where
  "t3dToEdge_ref edge h =
     (case spread_array (eref_faceIds edge) h of
        (faceIds, h') \<Rightarrow>
          (\<lparr>eref_id = eref_id edge, eref_vertexIds = eref_vertexIds edge,
            eref_faceIds = faceIds, eref_selected = eref_selected edge\<rparr>, h'))"

definition t3dToFace_ref :: "face_ref \<Rightarrow> arrays \<Rightarrow> face_ref \<times> arrays" where
  "t3dToFace_ref face h =
     (case spread_array (fref_vertexIds face) h of
        (vertexIds, h') \<Rightarrow>
          (\<lparr>fref_id = fref_id face, fref_vertexIds = vertexIds,
            fref_normal = fref_normal face, fref_materialId = fref_materialId face,
            fref_selected = fref_selected face\<rparr>, h'))"

definition t3dToMesh_ref :: "mesh_ref \<Rightarrow> arrays \<Rightarrow> mesh_ref \<times> arrays" where
  "t3dToMesh_ref t3dMesh h =
     (case map_ref t3dToEdge_ref (mref_edges t3dMesh) h of
        (edges, h1) \<Rightarrow>
     (case map_ref t3dToFace_ref (mref_faces t3dMesh) h1 of
        (faces, h2) \<Rightarrow>
          (\<lparr>mref_id = mref_id t3dMesh, mref_name = mref_name t3dMesh,
            mref_vertices = mref_vertices t3dMesh, mref_edges = edges, mref_faces = faces,
            mref_transform = mref_transform t3dMesh, mref_visible = mref_visible t3dMesh,
            mref_locked = mref_locked t3dMesh\<rparr>, h2)))"

definition t3dToSceneObject_ref :: "object_ref \<Rightarrow> arrays \<Rightarrow> object_ref \<times> arrays" where
  "t3dToSceneObject_ref t3dObject h =
     (case spread_array (oref_children t3dObject) h of
        (children, h') \<Rightarrow>
          (\<lparr>oref_id = oref_id t3dObject, oref_name = oref_name t3dObject,
            oref_type = oref_type t3dObject, oref_parentId = oref_parentId t3dObject,
            oref_children = children, oref_transform = oref_transform t3dObject,
            oref_visible = oref_visible t3dObject, oref_locked = oref_locked t3dObject,
            oref_render = nullish_coalesce (oref_render t3dObject) (Bool True),
            oref_meshId = oref_meshId t3dObject, oref_lightId = oref_lightId t3dObject,
            oref_cameraId = oref_cameraId t3dObject\<rparr>, h'))"

text \<open>
  The trees the store stands for: the document's edge, face and object with their arrays
  read from the store, and the converted ones likewise. By \<open>edge_ref_refines\<close>,
  \<open>face_ref_refines\<close> and \<open>object_ref_refines\<close> below, the converters on trees compute
  exactly what the converters on the store leave.
\<close>

definition vector3_doc :: "Vector3 \<Rightarrow> jsval" where
  "vector3_doc v = Obj [(''x'', v3_x v), (''y'', v3_y v), (''z'', v3_z v)]"

definition transform_doc :: "Transform \<Rightarrow> jsval" where
  "transform_doc t =
     Obj [(''position'', vector3_doc (transform_position t)),
          (''rotation'', vector3_doc (transform_rotation t)),
          (''scale'', vector3_doc (transform_scale t))]"

definition edge_doc :: "arrays \<Rightarrow> edge_ref \<Rightarrow> jsval" where
  "edge_doc h e =
     Obj [(''id'', eref_id e), (''vertexIds'', Arr (elements h (eref_vertexIds e))),
          (''faceIds'', Arr (elements h (eref_faceIds e))), (''selected'', eref_selected e)]"

definition edge_read :: "arrays \<Rightarrow> edge_ref \<Rightarrow> Edge" where
  "edge_read h e =
     \<lparr>edge_id = eref_id e, edge_vertexIds = Arr (elements h (eref_vertexIds e)),
      edge_faceIds = elements h (eref_faceIds e), edge_selected = eref_selected e\<rparr>"

definition face_doc :: "arrays \<Rightarrow> face_ref \<Rightarrow> jsval" where
  "face_doc h f =
     Obj [(''id'', fref_id f), (''vertexIds'', Arr (elements h (fref_vertexIds f))),
          (''normal'', vector3_doc (fref_normal f)), (''materialId'', fref_materialId f),
          (''selected'', fref_selected f)]"

definition face_read :: "arrays \<Rightarrow> face_ref \<Rightarrow> Face" where
  "face_read h f =
     \<lparr>face_id = fref_id f, face_vertexIds = elements h (fref_vertexIds f),
      face_normal = fref_normal f, face_materialId = fref_materialId f,
      face_selected = fref_selected f\<rparr>"

definition object_doc :: "arrays \<Rightarrow> object_ref \<Rightarrow> jsval" where
  "object_doc h ob =
     Obj [(''id'', oref_id ob), (''name'', oref_name ob), (''type'', oref_type ob),
          (''parentId'', oref_parentId ob),
          (''children'', Arr (elements h (oref_children ob))),
          (''transform'', transform_doc (oref_transform ob)),
          (''visible'', oref_visible ob), (''locked'', oref_locked ob),
          (''render'', oref_render ob), (''meshId'', oref_meshId ob),
          (''lightId'', oref_lightId ob), (''cameraId'', oref_cameraId ob)]"

definition object_read :: "arrays \<Rightarrow> object_ref \<Rightarrow> SceneObject" where
  "object_read h ob =
     \<lparr>object_id = oref_id ob, object_name = oref_name ob, object_type = oref_type ob,
      object_parentId = oref_parentId ob, object_children = elements h (oref_children ob),
      object_transform = oref_transform ob, object_visible = oref_visible ob,
      object_locked = oref_locked ob, object_render = oref_render ob,
      object_meshId = oref_meshId ob, object_lightId = oref_lightId ob,
      object_cameraId = oref_cameraId ob\<rparr>"

text \<open>
  What the claim asks of a copy \<open>cpy\<close> made from the array \<open>src\<close> while the store went
  from \<open>h\<close> to \<open>h'\<close>: it is a new array with the elements of \<open>src\<close> in their order; no
  array of \<open>h\<close> has changed; a write to the copy shows in no array of \<open>h\<close>; and a write
  to an array of \<open>h\<close> does not show in the copy.
\<close>

definition independent_copy :: "arrays \<Rightarrow> arrays \<Rightarrow> addr \<Rightarrow> addr \<Rightarrow> bool" where
  "independent_copy h h' src cpy \<longleftrightarrow>
     present h src \<and> \<not> present h cpy \<and> present h' cpy
     \<and> elements h' cpy = elements h src
     \<and> (\<forall>a. present h a \<longrightarrow> elements h' a = elements h a)
     \<and> (\<forall>a xs. present h a \<longrightarrow> elements (mutate cpy xs h') a = elements h a)
     \<and> (\<forall>a xs. present h a \<longrightarrow> elements (mutate a xs h') cpy = elements h src)"

section \<open>A sample scene\<close>

text \<open>
  A document as the format describes it: one mesh with two vertices, one edge and no
  face, one material, one object that refers to the mesh, and neither lights, cameras
  nor animations. Its version is \<open>v.0.0\<close>.
\<close>

definition vec3 :: "rat \<Rightarrow> rat \<Rightarrow> rat \<Rightarrow> jsval" where
  "vec3 a b c = Obj [(''x'', Num a), (''y'', Num b), (''z'', Num c)]"

definition sample_transform :: jsval where
  "sample_transform =
     Obj [(''position'', vec3 0 0 0), (''rotation'', vec3 0 0 0), (''scale'', vec3 1 1 1)]"

definition sample_vertex :: "string \<Rightarrow> rat \<Rightarrow> jsval" where
  "sample_vertex i a =
     Obj [(''id'', Str i), (''position'', vec3 a 0 0), (''normal'', vec3 0 1 0),
          (''uv'', Obj [(''x'', Num 0), (''y'', Num 0)]), (''selected'', Bool False)]"

definition sample_mesh :: jsval where
  "sample_mesh =
     Obj [(''id'', Str ''mesh1''), (''name'', Str ''Segment''),
          (''vertices'', Arr [sample_vertex ''v1'' 0, sample_vertex ''v2'' 1]),
          (''edges'', Arr [Obj [(''id'', Str ''e1''),
                                (''vertexIds'', Arr [Str ''v1'', Str ''v2'']),
                                (''faceIds'', Arr []), (''selected'', Bool False)]]),
          (''faces'', Arr []),
          (''transform'', sample_transform),
          (''visible'', Bool True), (''locked'', Bool False)]"

definition sample_material :: "(string \<times> jsval) list \<Rightarrow> jsval" where
  "sample_material extra =
     Obj ([(''id'', Str ''mat1''), (''name'', Str ''Default''), (''color'', vec3 1 1 1),
           (''roughness'', Num (1 / 2)), (''metalness'', Num 0),
           (''emissive'', vec3 0 0 0)] @ extra)"

definition sample_object :: "(string \<times> jsval) list \<Rightarrow> jsval" where
  "sample_object extra =
     Obj ([(''id'', Str ''obj1''), (''name'', Str ''Segment''), (''type'', Str ''mesh''),
           (''parentId'', Null), (''children'', Arr []),
           (''transform'', sample_transform),
           (''visible'', Bool True), (''locked'', Bool False),
           (''meshId'', Str ''mesh1'')] @ extra)"

definition sample_viewport :: "(string \<times> jsval) list \<Rightarrow> jsval" where
  "sample_viewport extra =
     Obj ([(''camera'', Obj [(''position'', vec3 5 5 5), (''target'', vec3 0 0 0),
                             (''up'', vec3 0 1 0), (''fov'', Num 50),
                             (''near'', Num (1 / 10)), (''far'', Num 1000)]),
           (''shadingMode'', Str ''solid''), (''showGrid'', Bool True),
           (''showAxes'', Bool True), (''gridSize'', Num 10),
           (''backgroundColor'', vec3 0 0 0)] @ extra)"

definition sample_metadata :: "rat \<Rightarrow> jsval" where
  "sample_metadata v =
     Obj [(''version'', Obj [(''major'', Num v), (''minor'', Num 0), (''patch'', Num 0)]),
          (''created'', Str ''2025-01-01''), (''modified'', Str ''2025-01-02''),
          (''application'', Str ''editor''), (''applicationVersion'', Str ''0.1.0'')]"

definition sample_fields :: "rat \<Rightarrow> (string \<times> jsval) list" where
  "sample_fields v =
     [(''metadata'', sample_metadata v),
      (''meshes'', Arr [sample_mesh]),
      (''materials'', Arr [sample_material []]),
      (''objects'', Arr [sample_object []]),
      (''rootObjects'', Arr [Str ''obj1'']),
      (''viewport'', sample_viewport [])]"

definition sample_scene :: jsval where
  "sample_scene = Obj (sample_fields 1)"

text \<open>The sample scene with one of its top-level fields left out.\<close>

definition sample_without :: "string \<Rightarrow> jsval" where
  "sample_without k = Obj (AList.delete k (sample_fields 1))"

text \<open>
  The sample scene with further top-level fields, a light, and two animation payloads: one clip
  with one track and one key at 30 frames per second, and a clip that lacks its
  \<^verbatim>\<open>tracks\<close>.
\<close>

definition sample_with :: "(string \<times> jsval) list \<Rightarrow> jsval" where
  "sample_with extra = Obj (extra @ sample_fields 1)"



definition malformed_animations :: jsval where
  "malformed_animations =
     Obj [(''clips'', Arr [Obj [(''id'', Str ''clip1''), (''name'', Str ''Slide'')]])]"

text \<open>
  A store with four id sequences, and a mesh and an object that refer to them: the
  edge has its \<^verbatim>\<open>vertexIds\<close> at address 0 and its \<^verbatim>\<open>faceIds\<close> at address 1, the face its
  \<^verbatim>\<open>vertexIds\<close> at address 2, and the object its \<^verbatim>\<open>children\<close> at address 3.
\<close>

definition sample_arrays :: arrays where
  "sample_arrays =
     [[Str ''v1'', Str ''v2''], [Str ''f1'', Str ''f2''],
      [Str ''v1'', Str ''v2'', Str ''v3''], [Str ''obj2'']]"

definition sample_mesh_ref :: mesh_ref where
  "sample_mesh_ref =
     \<lparr>mref_id = Str ''mesh1'', mref_name = Str ''Triangle'', mref_vertices = [],
      mref_edges = [\<lparr>eref_id = Str ''e1'', eref_vertexIds = 0, eref_faceIds = 1,
                     eref_selected = Bool False\<rparr>],
      mref_faces = [\<lparr>fref_id = Str ''f1'', fref_vertexIds = 2,
                     fref_normal = \<lparr>v3_x = Num 0, v3_y = Num 1, v3_z = Num 0\<rparr>,
                     fref_materialId = Str ''mat1'', fref_selected = Bool False\<rparr>],
      mref_transform =
        \<lparr>transform_position = \<lparr>v3_x = Num 0, v3_y = Num 0, v3_z = Num 0\<rparr>,
         transform_rotation = \<lparr>v3_x = Num 0, v3_y = Num 0, v3_z = Num 0\<rparr>,
         transform_scale = \<lparr>v3_x = Num 1, v3_y = Num 1, v3_z = Num 1\<rparr>\<rparr>,
      mref_visible = Bool True, mref_locked = Bool False\<rparr>"

definition sample_object_ref :: object_ref where
  "sample_object_ref =
     \<lparr>oref_id = Str ''obj1'', oref_name = Str ''Group'', oref_type = Str ''group'',
      oref_parentId = Null, oref_children = 3,
      oref_transform =
        \<lparr>transform_position = \<lparr>v3_x = Num 0, v3_y = Num 0, v3_z = Num 0\<rparr>,
         transform_rotation = \<lparr>v3_x = Num 0, v3_y = Num 0, v3_z = Num 0\<rparr>,
         transform_scale = \<lparr>v3_x = Num 1, v3_y = Num 1, v3_z = Num 1\<rparr>\<rparr>,
      oref_visible = Bool True, oref_locked = Bool False, oref_render = Undefined,
      oref_meshId = Undefined, oref_lightId = Undefined, oref_cameraId = Undefined\<rparr>"

text \<open>
  The surroundings of the sample runs. A file is given by the text of its
  \<^verbatim>\<open>scene.json\<close>; \<open>parse_to d\<close> stands for \<^verbatim>\<open>JSON.parse\<close> on the one text it knows, which
  it parses to \<open>d\<close>; numbers print as \<^verbatim>\<open>Number::toString\<close> prints the natural numbers
  below ten, which is what the sample versions need; the current version is 1.0.0; and
  \<^verbatim>\<open>setActiveClip\<close> stores the identifier it is given.
\<close>

definition parse_to :: "jsval \<Rightarrow> string \<Rightarrow> jsval option" where
  "parse_to d text = (if text = ''<scene>'' then Some d else None)"

definition digit_string :: "rat \<Rightarrow> string" where
  "digit_string q =
     (if q = 0 then ''0'' else if q = 1 then ''1'' else if q = 2 then ''2''
      else if q = 3 then ''3'' else if q = 4 then ''4'' else if q = 5 then ''5''
      else if q = 6 then ''6'' else if q = 7 then ''7'' else if q = 8 then ''8''
      else if q = 9 then ''9'' else ''?'')"

definition archive_of :: "string \<Rightarrow> thrown + zip" where
  "archive_of text = Inr (\<lambda>name. if name = ''scene.json'' then Some (Inr text) else None)"

definition sample_env :: "jsval \<Rightarrow> (string, anim_state) env" where
  "sample_env d =
     \<lparr>T3D_VERSION = \<lparr>major = 1, minor = 0, patch = 0\<rparr>,
      JSON_parse = parse_to d,
      Number_toString = digit_string,
      loadAsync = archive_of,
      setActiveClip = (\<lambda>a s. (None, s\<lparr>activeClipId := a\<rparr>))\<rparr>"

text \<open>
  The same surroundings with an archive reader that rejects the file \<open>unreadable\<close>
  with a value that is not an \<^verbatim>\<open>Error\<close>, and finds no entry in the file \<open>empty\<close>.
\<close>

definition flaky_env :: "(string, anim_state) env" where
  "flaky_env =
     (sample_env sample_scene)
       \<lparr>loadAsync := (\<lambda>file.
          if file = ''unreadable'' then Inl (NonError (Str ''aborted''))
          else if file = ''empty'' then Inr (\<lambda>name. None)
          else archive_of file)\<rparr>"

text \<open>A store that still holds the animation data of an earlier scene.\<close>

definition stale_store :: anim_state where
  "stale_store =
     \<lparr>playing = True, playhead = 12, selection = Null,
      clips = [(''old'', \<lparr>clip_id = Str ''old'', clip_name = Str ''Old'', clip_start = Num 0,
                          clip_end = Num 5, clip_loop = Bool False, clip_speed = Num 1,
                          clip_trackIds = []\<rparr>)],
      clipOrder = [Str ''old''], activeClipId = Str ''old'', tracks = [],
      sortedCache = [], markers = [Num 3], soloTrackIds = {Str ''t0''},
      fps = Num 24, autoKey = Bool True, snapping = Bool True,
      timelinePanelOpen = False, lastUsedFps = Num 24\<rparr>"

section \<open>What each step can throw, and what its success means\<close>

lemma bindE_Inr_iff: "bindE m f = Inr b \<longleftrightarrow> (\<exists>a. m = Inr a \<and> f a = Inr b)"
  by (cases m) (simp_all add: bindE_def)

lemma bindE_Inl_iff: "bindE m f = Inl e \<longleftrightarrow> m = Inl e \<or> (\<exists>a. m = Inr a \<and> f a = Inl e)"
  by (cases m) (simp_all add: bindE_def)

lemma bindE_simps [simp]: "bindE (Inl e) f = Inl e" "bindE (Inr a) f = f a"
  by (simp_all add: bindE_def)

lemma get_throws: "get v k = Inl e \<Longrightarrow> e = TypeError"
  by (auto simp: get_def split: jsval.splits)

lemma get_throws_iff: "get v k = Inl e \<longleftrightarrow> nullish v \<and> e = TypeError"
  by (cases v) (auto simp: get_def)

lemma get_total: "\<not> nullish v \<Longrightarrow> \<exists>w. get v k = Inr w"
  by (cases v) (auto simp: get_def)

lemma get_same_receiver: "get v k = Inr w \<Longrightarrow> \<exists>w'. get v k' = Inr w'"
  by (cases v) (auto simp: get_def)

lemma spread_throws: "spread v = Inl e \<Longrightarrow> e = TypeError"
  by (auto simp: spread_def split: jsval.splits)

lemma mapE_throws:
  "(\<And>x e. f x = Inl e \<Longrightarrow> e = t) \<Longrightarrow> mapE f xs = Inl e \<Longrightarrow> e = t"
  by (induction xs arbitrary: e) (auto simp: bindE_Inl_iff)

lemma method_map_throws:
  "(\<And>x e. f x = Inl e \<Longrightarrow> e = TypeError) \<Longrightarrow> method_map a f = Inl e \<Longrightarrow> e = TypeError"
  by (cases a) (auto simp: method_map_def intro: mapE_throws)

lemma to_string_throws:
  "to_string nts v = Inl e \<Longrightarrow> e = TypeError"
  "join nts vs = Inl e \<Longrightarrow> e = TypeError"
  by (induction nts v and nts vs arbitrary: e and e rule: to_string_join.induct)
     (auto simp: bindE_Inl_iff split: if_splits)

lemma t3dToVector3_throws: "t3dToVector3 v = Inl e \<Longrightarrow> e = TypeError"
  by (auto simp: t3dToVector3_def bindE_Inl_iff dest: get_throws)

lemma t3dToVector2_throws: "t3dToVector2 v = Inl e \<Longrightarrow> e = TypeError"
  by (auto simp: t3dToVector2_def bindE_Inl_iff dest: get_throws)

lemma t3dToTransform_throws: "t3dToTransform v = Inl e \<Longrightarrow> e = TypeError"
  by (auto simp: t3dToTransform_def bindE_Inl_iff dest: get_throws t3dToVector3_throws)

lemma t3dToVertex_throws: "t3dToVertex v = Inl e \<Longrightarrow> e = TypeError"
  by (auto simp: t3dToVertex_def bindE_Inl_iff dest: get_throws t3dToVector3_throws t3dToVector2_throws)

lemma t3dToEdge_throws: "t3dToEdge v = Inl e \<Longrightarrow> e = TypeError"
  by (auto simp: t3dToEdge_def bindE_Inl_iff dest: get_throws spread_throws)

lemma t3dToFace_throws: "t3dToFace v = Inl e \<Longrightarrow> e = TypeError"
  by (auto simp: t3dToFace_def bindE_Inl_iff dest: get_throws spread_throws t3dToVector3_throws)

lemma map_vertices_throws: "method_map a t3dToVertex = Inl e \<Longrightarrow> e = TypeError"
  by (erule method_map_throws [rotated]) (rule t3dToVertex_throws)

lemma map_edges_throws: "method_map a t3dToEdge = Inl e \<Longrightarrow> e = TypeError"
  by (erule method_map_throws [rotated]) (rule t3dToEdge_throws)

lemma map_faces_throws: "method_map a t3dToFace = Inl e \<Longrightarrow> e = TypeError"
  by (erule method_map_throws [rotated]) (rule t3dToFace_throws)

lemma t3dToMesh_throws: "t3dToMesh v = Inl e \<Longrightarrow> e = TypeError"
  by (auto simp: t3dToMesh_def bindE_Inl_iff
      dest: get_throws t3dToTransform_throws map_vertices_throws map_edges_throws
        map_faces_throws)

lemma t3dToMaterial_throws: "t3dToMaterial v = Inl e \<Longrightarrow> e = TypeError"
  by (auto simp: t3dToMaterial_def bindE_Inl_iff dest: get_throws t3dToVector3_throws)

lemma t3dToSceneObject_throws: "t3dToSceneObject v = Inl e \<Longrightarrow> e = TypeError"
  by (auto simp: t3dToSceneObject_def bindE_Inl_iff dest: get_throws spread_throws t3dToTransform_throws)

lemma t3dToCamera_throws: "t3dToCamera v = Inl e \<Longrightarrow> e = TypeError"
  by (auto simp: t3dToCamera_def bindE_Inl_iff dest: get_throws t3dToVector3_throws)

lemma t3dToViewport_throws: "t3dToViewport v = Inl e \<Longrightarrow> e = TypeError"
  by (auto simp: t3dToViewport_def bindE_Inl_iff dest: get_throws t3dToVector3_throws t3dToCamera_throws)

lemma version_string_throws: "version_string nts v = Inl e \<Longrightarrow> e = TypeError"
  by (auto simp: version_string_def bindE_Inl_iff dest: get_throws to_string_throws)

lemma fromEntries_throws: "fromEntries nts acc es = Inl e \<Longrightarrow> e = TypeError"
  by (induction nts acc es rule: fromEntries.induct)
     (auto simp: bindE_Inl_iff dest: to_string_throws)

lemma id_entries_throws:
  "method_map a (\<lambda>l. bindE (get l ''id'') (\<lambda>i. Inr (i, l))) = Inl e \<Longrightarrow> e = TypeError"
  by (erule method_map_throws [rotated]) (auto simp: bindE_Inl_iff dest: get_throws)

lemma resource_record_throws: "resource_record nts a = Inl e \<Longrightarrow> e = TypeError"
  by (auto simp: resource_record_def bindE_Inl_iff split: if_splits
      dest: fromEntries_throws id_entries_throws)

lemma map_meshes_throws: "method_map a t3dToMesh = Inl e \<Longrightarrow> e = TypeError"
  by (erule method_map_throws [rotated]) (rule t3dToMesh_throws)

lemma map_materials_throws: "method_map a t3dToMaterial = Inl e \<Longrightarrow> e = TypeError"
  by (erule method_map_throws [rotated]) (rule t3dToMaterial_throws)

lemma map_objects_throws: "method_map a t3dToSceneObject = Inl e \<Longrightarrow> e = TypeError"
  by (erule method_map_throws [rotated]) (rule t3dToSceneObject_throws)

lemma convert_scene_throws: "convert_scene env d = Inl e \<Longrightarrow> e = TypeError"
  unfolding convert_scene_def
  by (auto simp: bindE_Inl_iff
        dest: get_throws version_string_throws map_meshes_throws map_materials_throws
          map_objects_throws t3dToViewport_throws resource_record_throws spread_throws)

lemma validate_scene_throws:
  "validate_scene env d = Inl e \<Longrightarrow>
     e = TypeError \<or> e = Error ''Invalid T3D file: missing required data''
   \<or> (\<exists>vs. e = Error (''Incompatible T3D version: '' @ vs @ ''. Current version: ''
                      @ current_version_string (Number_toString env) (T3D_VERSION env)))"
  unfolding validate_scene_def
  by (auto simp: bindE_Inl_iff isVersionCompatible_def split: if_splits
        dest: get_throws version_string_throws)

lemma import_primary_success:
  assumes "import_primary env file = Inr (d, r)"
  shows "read_scene env file = Inr d \<and> validate_scene env d = Inr () \<and> convert_scene env d = Inr r"
  using assms unfolding import_primary_def by (auto simp: bindE_Inr_iff)

lemma read_scene_success:
  "read_scene env file = Inr d \<longleftrightarrow>
     (\<exists>z text. loadAsync env file = Inr z \<and> z ''scene.json'' = Some (Inr text) \<and>
        JSON_parse env text = Some d)"
proof
  assume "read_scene env file = Inr d"
  then show "\<exists>z text. loadAsync env file = Inr z \<and> z ''scene.json'' = Some (Inr text) \<and>
        JSON_parse env text = Some d"
    unfolding read_scene_def
    by (cases "loadAsync env file") (auto simp: bindE_Inr_iff split: option.splits)
next
  assume "\<exists>z text. loadAsync env file = Inr z \<and> z ''scene.json'' = Some (Inr text) \<and>
        JSON_parse env text = Some d"
  then show "read_scene env file = Inr d"
    unfolding read_scene_def by auto
qed

lemma convert_scene_success:
  assumes "convert_scene env d = Inr r"
  shows "\<exists>ms mats objs md ver.
     get d ''meshes'' = Inr ms \<and> method_map ms t3dToMesh = Inr (meshes r) \<and>
     get d ''materials'' = Inr mats \<and> method_map mats t3dToMaterial = Inr (materials r) \<and>
     get d ''objects'' = Inr objs \<and> method_map objs t3dToSceneObject = Inr (objects r) \<and>
     bindE (get d ''viewport'') t3dToViewport = Inr (viewport r) \<and>
     bindE (get d ''lights'') (resource_record (Number_toString env)) = Inr (lights r) \<and>
     bindE (get d ''cameras'') (resource_record (Number_toString env)) = Inr (cameras r) \<and>
     bindE (get d ''rootObjects'') spread = Inr (rootObjects r) \<and>
     get d ''selectedObjectId'' = Inr (selectedObjectId r) \<and>
     get d ''metadata'' = Inr md \<and> get md ''version'' = Inr ver \<and>
     version_string (Number_toString env) ver = Inr (metadata_version (metadata r))"
  using assms unfolding convert_scene_def
  by (auto simp: bindE_Inr_iff)

section \<open>The outer \<^verbatim>\<open>catch\<close>\<close>

lemma importFromT3D_read_fails:
  "read_scene env file = Inl e \<Longrightarrow>
   importFromT3D env file s =
     (Inl (if instanceof_Error e then e
           else Error ''Failed to import T3D file: Unknown error occurred''), s)"
  by (simp add: importFromT3D_def import_primary_def)

lemma importFromT3D_validate_fails:
  "read_scene env file = Inr d \<Longrightarrow> validate_scene env d = Inl e \<Longrightarrow>
   importFromT3D env file s =
     (Inl (if instanceof_Error e then e
           else Error ''Failed to import T3D file: Unknown error occurred''), s)"
  by (simp add: importFromT3D_def import_primary_def)

lemma importFromT3D_Inr:
  assumes "fst (importFromT3D env file s) = Inr r"
  shows "\<exists>d. read_scene env file = Inr d \<and> validate_scene env d = Inr ()
           \<and> convert_scene env d = Inr r"
proof (cases "import_primary env file")
  case (Inl e)
  with assms show ?thesis by (simp add: importFromT3D_def)
next
  case (Inr p)
  obtain d r' where p: "p = (d, r')" by (cases p)
  with Inr assms have "r' = r" by (simp add: importFromT3D_def)
  with Inr p have "import_primary env file = Inr (d, r)" by simp
  from import_primary_success [OF this] show ?thesis
    by auto
qed

section \<open>Malformed JSON\<close>

text \<open>
  Claim C9. When the archive holds a \<^verbatim>\<open>scene.json\<close> whose text \<^verbatim>\<open>JSON.parse\<close> rejects, the
  import fails with the error whose message names the entry, \<^verbatim>\<open>scene.json is not valid
  JSON\<close>, and not with the generic failure. No document exists at that point, so neither
  the structure check nor the version check has run; the store is left as it was.
\<close>

theorem malformed_json:
  assumes "loadAsync env file = Inr z"
    and "z ''scene.json'' = Some (Inr text)"
    and "JSON_parse env text = None"
  shows "importFromT3D env file s =
           (Inl (Error (''Invalid T3D file: '' @ ''scene.json'' @ '' is not valid JSON'')), s)
       \<and> fst (importFromT3D env file s)
           \<noteq> Inl (Error ''Failed to import T3D file: Unknown error occurred'')"
proof -
  have "read_scene env file = Inl (Error ''Invalid T3D file: scene.json is not valid JSON'')"
    using assms by (simp add: read_scene_def)
  then show ?thesis
    by (simp add: importFromT3D_read_fails)
qed

theorem malformed_json_witness:
  "loadAsync (sample_env sample_scene) ''{'' = archive_of ''{''
   \<and> JSON_parse (sample_env sample_scene) ''{'' = None
   \<and> importFromT3D (sample_env sample_scene) ''{'' stale_store =
       (Inl (Error ''Invalid T3D file: scene.json is not valid JSON''), stale_store)"
  using malformed_json [of "sample_env sample_scene" "''{''"
      "\<lambda>name. if name = ''scene.json'' then Some (Inr ''{'') else None" "''{''" stale_store]
  by (simp add: sample_env_def archive_of_def parse_to_def)

section \<open>The structure check\<close>

lemma validate_scene_missing:
  assumes "k \<in> {''metadata'', ''meshes'', ''materials'', ''objects''}"
    and "get d k = Inr v" and "\<not> truthy v"
  shows "validate_scene env d = Inl (Error ''Invalid T3D file: missing required data'')"
proof -
  from assms(2) have "\<not> nullish d"
    by (cases d) (simp_all add: get_def)
  then obtain a b c e where g: "get d ''metadata'' = Inr a" "get d ''meshes'' = Inr b"
    "get d ''materials'' = Inr c" "get d ''objects'' = Inr e"
    using get_total by metis
  with assms have "\<not> truthy a \<or> \<not> truthy b \<or> \<not> truthy c \<or> \<not> truthy e"
    by auto
  with g show ?thesis
    by (simp add: validate_scene_def)
qed

text \<open>
  Claim C1, as the code has it. The structure check names four fields. For a document
  that was parsed and is not \<^verbatim>\<open>null\<close>, when \<^verbatim>\<open>metadata\<close>, \<^verbatim>\<open>meshes\<close>, \<^verbatim>\<open>materials\<close> or
  \<^verbatim>\<open>objects\<close> is absent the import fails with the error \<^verbatim>\<open>Invalid T3D file: missing
  required data\<close> and leaves the store as it was; a text that does not parse never gives
  this error, so the check runs only on a parsed document.
\<close>

theorem missing_required_data:
  assumes "loadAsync env file = Inr z"
    and "z ''scene.json'' = Some (Inr text)"
  shows "(JSON_parse env text = None \<longrightarrow>
            fst (importFromT3D env file s)
              \<noteq> Inl (Error ''Invalid T3D file: missing required data''))
       \<and> (\<forall>d k. JSON_parse env text = Some d
              \<and> k \<in> {''metadata'', ''meshes'', ''materials'', ''objects''}
              \<and> get d k = Inr Undefined \<longrightarrow>
            importFromT3D env file s =
              (Inl (Error ''Invalid T3D file: missing required data''), s))"
proof (intro conjI impI allI)
  assume "JSON_parse env text = None"
  with assms have "read_scene env file = Inl (Error ''Invalid T3D file: scene.json is not valid JSON'')"
    by (simp add: read_scene_def)
  then show "fst (importFromT3D env file s)
              \<noteq> Inl (Error ''Invalid T3D file: missing required data'')"
    by (simp add: importFromT3D_read_fails)
next
  fix d k
  assume h: "JSON_parse env text = Some d
              \<and> k \<in> {''metadata'', ''meshes'', ''materials'', ''objects''}
              \<and> get d k = Inr Undefined"
  with assms have r: "read_scene env file = Inr d"
    by (simp add: read_scene_def)
  from h have "validate_scene env d = Inl (Error ''Invalid T3D file: missing required data'')"
    using validate_scene_missing [of k d Undefined env] by simp
  with r show "importFromT3D env file s =
              (Inl (Error ''Invalid T3D file: missing required data''), s)"
    by (simp add: importFromT3D_validate_fails)
qed

theorem missing_required_data_witness:
  "get (sample_without ''meshes'') ''meshes'' = Inr Undefined
   \<and> importFromT3D (sample_env (sample_without ''meshes'')) ''<scene>'' stale_store =
       (Inl (Error ''Invalid T3D file: missing required data''), stale_store)"
proof -
  have a: "loadAsync (sample_env (sample_without ''meshes'')) ''<scene>'' =
     Inr (\<lambda>name. if name = ''scene.json'' then Some (Inr ''<scene>'') else None)"
    by (simp add: sample_env_def archive_of_def)
  have b: "get (sample_without ''meshes'') ''meshes'' = Inr Undefined"
    by (simp add: sample_without_def sample_fields_def get_def)
  have c: "JSON_parse (sample_env (sample_without ''meshes'')) ''<scene>'' = Some (sample_without ''meshes'')"
    by (simp add: sample_env_def parse_to_def)
  from missing_required_data [OF a, of "''<scene>''" stale_store] b c
  show ?thesis by auto
qed

text \<open>
  The claim as written also lists \<^verbatim>\<open>rootObjects\<close> and \<^verbatim>\<open>viewport\<close>. The sample scene
  without its \<^verbatim>\<open>viewport\<close> passes the structure check and fails in \<^verbatim>\<open>t3dToViewport\<close>, with
  a \<^verbatim>\<open>TypeError\<close>.
\<close>

theorem absent_viewport_counterexample:
  "JSON_parse (sample_env (sample_without ''viewport'')) ''<scene>''
     = Some (sample_without ''viewport'')
   \<and> get (sample_without ''viewport'') ''viewport'' = Inr Undefined
   \<and> importFromT3D (sample_env (sample_without ''viewport'')) ''<scene>'' stale_store
       = (Inl TypeError, stale_store)
   \<and> fst (importFromT3D (sample_env (sample_without ''viewport'')) ''<scene>'' stale_store)
       \<noteq> Inl (Error ''Invalid T3D file: missing required data'')"
  by code_simp

text \<open>
  More generally, a document without \<^verbatim>\<open>viewport\<close> or without \<^verbatim>\<open>rootObjects\<close> is never
  imported: the import fails, with whichever error comes first.
\<close>

lemma absent_viewport_or_rootObjects_fails:
  assumes "read_scene env file = Inr d"
    and "get d ''viewport'' = Inr Undefined \<or> get d ''rootObjects'' = Inr Undefined"
  shows "\<exists>e. fst (importFromT3D env file s) = Inl e"
proof (cases "fst (importFromT3D env file s)")
  case (Inl e)
  then show ?thesis by blast
next
  case (Inr r)
  from importFromT3D_Inr [OF this] assms(1) have "convert_scene env d = Inr r"
    by auto
  from convert_scene_success [OF this]
  have "bindE (get d ''viewport'') t3dToViewport = Inr (viewport r)"
    and "bindE (get d ''rootObjects'') spread = Inr (rootObjects r)"
    by auto
  with assms(2) show ?thesis
    by (auto simp: t3dToViewport_def get_def spread_def)
qed

section \<open>The version check\<close>

lemma version_string_numbers:
  assumes "get ver ''major'' = Inr (Num a)" "get ver ''minor'' = Inr (Num b)"
    "get ver ''patch'' = Inr (Num c)"
  shows "version_string nts ver = Inr (nts a @ ''.'' @ nts b @ ''.'' @ nts c)"
  using assms by (simp add: version_string_def)

lemma validate_scene_version:
  assumes "\<forall>k \<in> {''metadata'', ''meshes'', ''materials'', ''objects''}.
             \<exists>v. get d k = Inr v \<and> truthy v"
    and "get d ''metadata'' = Inr md" and "get md ''version'' = Inr ver"
    and "get ver ''major'' = Inr m"
  shows "validate_scene env d =
     (if strict_eq_num m (major (T3D_VERSION env)) then Inr ()
      else bindE (version_string (Number_toString env) ver) (\<lambda>versionString.
          Inl (Error (''Incompatible T3D version: '' @ versionString @ ''. Current version: ''
                      @ current_version_string (Number_toString env) (T3D_VERSION env)))))"
proof -
  from assms(1) obtain a b c e where g: "get d ''metadata'' = Inr a" "truthy a"
    "get d ''meshes'' = Inr b" "truthy b"
    "get d ''materials'' = Inr c" "truthy c" "get d ''objects'' = Inr e" "truthy e"
    by auto
  with assms(2-4) show ?thesis
    by (simp add: validate_scene_def isVersionCompatible_def)
qed

lemma importFromT3D_convert:
  assumes "read_scene env file = Inr d" and "validate_scene env d = Inr ()"
  shows "fst (importFromT3D env file s) = Inl TypeError
       \<or> (\<exists>r. fst (importFromT3D env file s) = Inr r)"
proof (cases "convert_scene env d")
  case (Inl e)
  then have "e = TypeError" by (rule convert_scene_throws)
  with Inl assms show ?thesis
    by (simp add: importFromT3D_def import_primary_def)
next
  case (Inr r)
  with assms show ?thesis
    by (simp add: importFromT3D_def import_primary_def)
qed

text \<open>
  Claim C2. Take a document that was parsed, passes the structure check and carries a
  version whose three components are numbers, as \<^verbatim>\<open>isVersionCompatible\<close> declares them.
  The import fails with an \<^verbatim>\<open>Incompatible T3D version\<close> error exactly when the document's
  major version differs from the current one, whatever the minor and patch versions
  are; and the message then holds the document's version and the current version, each
  printed as \<^verbatim>\<open>major.minor.patch\<close>.
\<close>

theorem version_mismatch:
  assumes "loadAsync env file = Inr z"
    and "z ''scene.json'' = Some (Inr text)"
    and "JSON_parse env text = Some d"
    and "\<forall>k \<in> {''metadata'', ''meshes'', ''materials'', ''objects''}.
           \<exists>v. get d k = Inr v \<and> truthy v"
    and "get d ''metadata'' = Inr md"
    and "get md ''version'' = Inr ver"
    and "get ver ''major'' = Inr (Num a)"
    and "get ver ''minor'' = Inr (Num b)"
    and "get ver ''patch'' = Inr (Num c)"
  shows "((\<exists>m. fst (importFromT3D env file s) = Inl (Error (''Incompatible T3D version: '' @ m)))
           \<longleftrightarrow> a \<noteq> major (T3D_VERSION env))
       \<and> (a \<noteq> major (T3D_VERSION env) \<longrightarrow>
            importFromT3D env file s =
              (Inl (Error (''Incompatible T3D version: ''
                  @ Number_toString env a @ ''.'' @ Number_toString env b @ ''.''
                  @ Number_toString env c
                  @ ''. Current version: ''
                  @ Number_toString env (major (T3D_VERSION env)) @ ''.''
                  @ Number_toString env (minor (T3D_VERSION env)) @ ''.''
                  @ Number_toString env (patch (T3D_VERSION env)))), s))"
proof -
  have r: "read_scene env file = Inr d"
    using assms(1-3) by (simp add: read_scene_def)
  have v: "validate_scene env d =
     (if a = major (T3D_VERSION env) then Inr ()
      else Inl (Error (''Incompatible T3D version: ''
                  @ Number_toString env a @ ''.'' @ Number_toString env b @ ''.''
                  @ Number_toString env c
                  @ ''. Current version: ''
                  @ Number_toString env (major (T3D_VERSION env)) @ ''.''
                  @ Number_toString env (minor (T3D_VERSION env)) @ ''.''
                  @ Number_toString env (patch (T3D_VERSION env)))))"
    using validate_scene_version [OF assms(4-7), of env]
      version_string_numbers [OF assms(7-9), of "Number_toString env"]
    by (simp add: strict_eq_num_def current_version_string_def)
  show ?thesis
  proof (cases "a = major (T3D_VERSION env)")
    case True
    with v have "validate_scene env d = Inr ()" by simp
    from importFromT3D_convert [OF r this, of s] True show ?thesis
      by auto
  next
    case False
    with v r show ?thesis
      by (simp add: importFromT3D_validate_fails)
  qed
qed

theorem version_mismatch_witness:
  "importFromT3D (sample_env (Obj (sample_fields 2))) ''<scene>'' stale_store =
     (Inl (Error ''Incompatible T3D version: 2.0.0. Current version: 1.0.0''), stale_store)"
proof -
  let ?env = "sample_env (Obj (sample_fields 2))"
  have a: "loadAsync ?env ''<scene>'' =
     Inr (\<lambda>name. if name = ''scene.json'' then Some (Inr ''<scene>'') else None)"
    by (simp add: sample_env_def archive_of_def)
  have b: "(\<lambda>name. if name = ''scene.json'' then Some (Inr ''<scene>'') else None) ''scene.json''
     = Some (Inr ''<scene>'')"
    by simp
  have c: "JSON_parse ?env ''<scene>'' = Some (Obj (sample_fields 2))"
    by (simp add: sample_env_def parse_to_def)
  have d: "\<forall>k \<in> {''metadata'', ''meshes'', ''materials'', ''objects''}.
           \<exists>v. get (Obj (sample_fields 2)) k = Inr v \<and> truthy v"
    by (simp add: get_def sample_fields_def sample_metadata_def)
  have e: "get (Obj (sample_fields 2)) ''metadata'' = Inr (sample_metadata 2)"
    by (simp add: get_def sample_fields_def)
  have f: "get (sample_metadata 2) ''version''
     = Inr (Obj [(''major'', Num 2), (''minor'', Num 0), (''patch'', Num 0)])"
    by (simp add: get_def sample_metadata_def)
  have g: "get (Obj [(''major'', Num 2), (''minor'', Num 0), (''patch'', Num 0)]) ''major'' = Inr (Num 2)"
    "get (Obj [(''major'', Num 2), (''minor'', Num 0), (''patch'', Num 0)]) ''minor'' = Inr (Num 0)"
    "get (Obj [(''major'', Num 2), (''minor'', Num 0), (''patch'', Num 0)]) ''patch'' = Inr (Num 0)"
    by (simp_all add: get_def)
  from version_mismatch [OF a b c d e f g, of stale_store]
  show ?thesis
    by (simp add: sample_env_def digit_string_def)
qed

section \<open>What reaches the caller\<close>

lemma read_scene_throws:
  assumes "read_scene env file = Inl e"
  shows "loadAsync env file = Inl e
       \<or> (\<exists>z. loadAsync env file = Inr z \<and> z ''scene.json'' = Some (Inl e))
       \<or> (\<exists>m. e = Error m)"
  using assms unfolding read_scene_def
  by (cases "loadAsync env file") (auto simp: bindE_Inl_iff split: option.splits)

lemma import_primary_throws:
  assumes "import_primary env file = Inl e"
  shows "loadAsync env file = Inl e
       \<or> (\<exists>z. loadAsync env file = Inr z \<and> z ''scene.json'' = Some (Inl e))
       \<or> instanceof_Error e"
proof -
  from assms consider "read_scene env file = Inl e"
    | d where "validate_scene env d = Inl e" | d where "convert_scene env d = Inl e"
    unfolding import_primary_def by (auto simp: bindE_Inl_iff)
  then show ?thesis
  proof cases
    case 1
    from read_scene_throws [OF this] show ?thesis by auto
  next
    case 2
    from validate_scene_throws [OF this] show ?thesis by auto
  next
    case 3
    from convert_scene_throws [OF this] show ?thesis by auto
  qed
qed

text \<open>
  Claim C3, as the code has it. The outer \<^verbatim>\<open>catch\<close> tests \<^verbatim>\<open>instanceof Error\<close>. Every
  \<^verbatim>\<open>Error\<close> thrown on the way reaches the caller as it is: the four format errors (a
  missing entry among them), and equally a \<^verbatim>\<open>TypeError\<close> raised by a conversion. Only a
  thrown value that is not an \<^verbatim>\<open>Error\<close> is replaced by the error with the fixed message
  \<^verbatim>\<open>Failed to import T3D file: Unknown error occurred\<close>, and such a value can only come
  from the archive reader. The store is left as it was in each case.
\<close>

theorem outer_catch:
  "(loadAsync env file = Inr z \<and> z ''scene.json'' = None \<longrightarrow>
      importFromT3D env file s = (Inl (Error ''Invalid T3D file: scene.json not found''), s))
 \<and> (import_primary env file = Inl (Error m) \<longrightarrow>
      importFromT3D env file s = (Inl (Error m), s))
 \<and> (import_primary env file = Inl TypeError \<longrightarrow>
      importFromT3D env file s = (Inl TypeError, s))
 \<and> (import_primary env file = Inl (NonError v) \<longrightarrow>
      importFromT3D env file s =
        (Inl (Error ''Failed to import T3D file: Unknown error occurred''), s)
      \<and> (loadAsync env file = Inl (NonError v)
         \<or> (\<exists>y. loadAsync env file = Inr y \<and> y ''scene.json'' = Some (Inl (NonError v)))))"
proof (intro conjI impI)
  assume "loadAsync env file = Inr z \<and> z ''scene.json'' = None"
  then have "read_scene env file = Inl (Error ''Invalid T3D file: scene.json not found'')"
    by (simp add: read_scene_def)
  then show "importFromT3D env file s = (Inl (Error ''Invalid T3D file: scene.json not found''), s)"
    by (simp add: importFromT3D_read_fails)
next
  assume "import_primary env file = Inl (Error m)"
  then show "importFromT3D env file s = (Inl (Error m), s)"
    by (simp add: importFromT3D_def)
next
  assume "import_primary env file = Inl TypeError"
  then show "importFromT3D env file s = (Inl TypeError, s)"
    by (simp add: importFromT3D_def)
next
  assume "import_primary env file = Inl (NonError v)"
  then show "importFromT3D env file s =
        (Inl (Error ''Failed to import T3D file: Unknown error occurred''), s)"
    by (simp add: importFromT3D_def)
next
  assume "import_primary env file = Inl (NonError v)"
  from import_primary_throws [OF this]
  show "loadAsync env file = Inl (NonError v)
         \<or> (\<exists>y. loadAsync env file = Inr y \<and> y ''scene.json'' = Some (Inl (NonError v)))"
    by simp
qed

theorem outer_catch_witness:
  "import_primary flaky_env ''unreadable'' = Inl (NonError (Str ''aborted''))
   \<and> importFromT3D flaky_env ''unreadable'' stale_store =
       (Inl (Error ''Failed to import T3D file: Unknown error occurred''), stale_store)
   \<and> importFromT3D flaky_env ''empty'' stale_store =
       (Inl (Error ''Invalid T3D file: scene.json not found''), stale_store)"
proof -
  have a: "import_primary flaky_env ''unreadable'' = Inl (NonError (Str ''aborted''))"
    by (simp add: import_primary_def read_scene_def flaky_env_def)
  have b: "loadAsync flaky_env ''empty'' = Inr (\<lambda>name. None)"
    by (simp add: flaky_env_def)
  from outer_catch [of flaky_env "''unreadable''" "\<lambda>name. None" stale_store "[]" "Str ''aborted''"]
    outer_catch [of flaky_env "''empty''" "\<lambda>name. None" stale_store "[]" "Str ''aborted''"] a b
  show ?thesis by simp
qed

text \<open>
  The claim as written has every failure other than the four format errors replaced by
  the generic error. The sample scene without \<^verbatim>\<open>rootObjects\<close> fails in the spread of
  line 266 with a \<^verbatim>\<open>TypeError\<close>, which is none of the four and reaches the caller as it
  is.
\<close>

theorem unwrapped_TypeError_counterexample:
  "import_primary (sample_env (sample_without ''rootObjects'')) ''<scene>'' = Inl TypeError
   \<and> importFromT3D (sample_env (sample_without ''rootObjects'')) ''<scene>'' stale_store
       = (Inl TypeError, stale_store)
   \<and> fst (importFromT3D (sample_env (sample_without ''rootObjects'')) ''<scene>'' stale_store)
       \<noteq> Inl (Error ''Failed to import T3D file: Unknown error occurred'')"
  by code_simp

section \<open>The animation block cannot fail the import\<close>

lemma importFromT3D_success:
  assumes "read_scene env file = Inr d" and "validate_scene env d = Inr ()"
    and "convert_scene env d = Inr r"
  shows "importFromT3D env file s = (Inr r, snd (animation_block env d s))"
  using assms by (simp add: importFromT3D_def import_primary_def)


lemma get_update_other:
  "k' \<noteq> k \<Longrightarrow> get (Obj (AList.update k v kvs)) k' = get (Obj kvs) k'"
  by (simp add: get_def update_conv')

lemma primary_ignores_payload:
  assumes "k = ''animations'' \<or> k = ''ui''"
  shows "validate_scene env (Obj (AList.update k v kvs)) = validate_scene env (Obj kvs)"
    and "convert_scene env (Obj (AList.update k v kvs)) = convert_scene env (Obj kvs)"
  using assms by (auto simp: validate_scene_def convert_scene_def get_update_other)

text \<open>
  Claim C4. Once the document is read, validated and converted to the result \<open>r\<close>, the
  import returns \<open>r\<close> whatever the animation block does. When the block throws, be it
  on a malformed payload or in the store's own action, the value thrown is dropped,
  the store stays as the block left it, and \<open>r\<close> is returned. (By
  \<open>primary_ignores_payload\<close> the result is also the one the document gives without its
  \<^verbatim>\<open>animations\<close> and \<^verbatim>\<open>ui\<close> payloads.)
\<close>

theorem animation_failure_suppressed:
  assumes "read_scene env file = Inr d"
    and "validate_scene env d = Inr ()"
    and "convert_scene env d = Inr r"
  shows "fst (importFromT3D env file s) = Inr r
       \<and> (\<forall>e t. animation_block env d s = (Some e, t) \<longrightarrow>
             importFromT3D env file s = (Inr r, t))"
  using importFromT3D_success [OF assms, of s] by simp

theorem animation_failure_suppressed_witness:
  "animation_block (sample_env (sample_with [(''animations'', malformed_animations)]))
       (sample_with [(''animations'', malformed_animations)]) stale_store
     = (Some TypeError, reset_recipe stale_store)
   \<and> importFromT3D (sample_env (sample_with [(''animations'', malformed_animations)]))
         ''<scene>'' stale_store
     = (convert_scene (sample_env sample_scene) sample_scene, reset_recipe stale_store)
   \<and> (case convert_scene (sample_env sample_scene) sample_scene of
         Inl e \<Rightarrow> False | Inr r \<Rightarrow> True)"
proof -
  let ?d = "sample_with [(''animations'', malformed_animations)]"
  let ?env = "sample_env ?d"
  have a: "read_scene ?env ''<scene>'' = Inr ?d"
    by (simp add: read_scene_def sample_env_def archive_of_def parse_to_def)
  have b: "validate_scene ?env ?d = Inr ()"
    by code_simp
  have c: "convert_scene ?env ?d = convert_scene (sample_env sample_scene) sample_scene"
    by code_simp
  have d: "case convert_scene (sample_env sample_scene) sample_scene of
         Inl e \<Rightarrow> False | Inr r \<Rightarrow> True"
    by code_simp
  then obtain r where r: "convert_scene (sample_env sample_scene) sample_scene = Inr r"
    by (cases "convert_scene (sample_env sample_scene) sample_scene") auto
  have e: "animation_block ?env ?d stale_store = (Some TypeError, reset_recipe stale_store)"
    by code_simp
  from animation_failure_suppressed [OF a b c [unfolded r], of stale_store] e r
  show ?thesis by simp
qed

section \<open>The reset of the animation store\<close>


















section \<open>The selected object\<close>

text \<open>
  Claim C10. On a successful import the result's \<^verbatim>\<open>selectedObjectId\<close> is what reading that
  property of the document gives, whatever it is. For a document without the field it is
  \<^verbatim>\<open>undefined\<close>, and not \<^verbatim>\<open>null\<close>, although the result type says string or \<^verbatim>\<open>null\<close>.
\<close>

theorem selectedObjectId_verbatim:
  assumes "read_scene env file = Inr d"
    and "fst (importFromT3D env file s) = Inr r"
  shows "get d ''selectedObjectId'' = Inr (selectedObjectId r)
       \<and> (get d ''selectedObjectId'' = Inr Undefined \<longrightarrow>
            selectedObjectId r = Undefined \<and> selectedObjectId r \<noteq> Null)"
proof -
  from importFromT3D_Inr [OF assms(2)] assms(1) have "convert_scene env d = Inr r"
    by auto
  from convert_scene_success [OF this] show ?thesis
    by auto
qed

theorem selectedObjectId_verbatim_witness:
  "get sample_scene ''selectedObjectId'' = Inr Undefined
   \<and> (case fst (importFromT3D (sample_env sample_scene) ''<scene>'' stale_store) of
         Inl e \<Rightarrow> False
       | Inr r \<Rightarrow> selectedObjectId r = Undefined \<and> selectedObjectId r \<noteq> Null)"
proof -
  have a: "read_scene (sample_env sample_scene) ''<scene>'' = Inr sample_scene"
    by (simp add: read_scene_def sample_env_def archive_of_def parse_to_def)
  have "case fst (importFromT3D (sample_env sample_scene) ''<scene>'' stale_store) of
         Inl e \<Rightarrow> False | Inr r \<Rightarrow> True"
    by code_simp
  then obtain r where r: "fst (importFromT3D (sample_env sample_scene) ''<scene>'' stale_store) = Inr r"
    by (cases "fst (importFromT3D (sample_env sample_scene) ''<scene>'' stale_store)") auto
  have g: "get sample_scene ''selectedObjectId'' = Inr Undefined"
    by (simp add: get_def sample_scene_def sample_fields_def)
  from selectedObjectId_verbatim [OF a r] g r show ?thesis
    by simp
qed

section \<open>Lights and cameras\<close>

lemma mapE_Inr_Cons:
  "mapE f (a # as) = Inr ys \<longleftrightarrow> (\<exists>b bs. f a = Inr b \<and> mapE f as = Inr bs \<and> ys = b # bs)"
  by (auto simp: bindE_Inr_iff)












lemma resource_record_absent: "\<not> truthy a \<Longrightarrow> resource_record nts a = Inr None"
  by (simp add: resource_record_def)





section \<open>Defaults\<close>

text \<open>
  Claim C6, as the code has it. The three defaults are written with \<^verbatim>\<open>??\<close>: a converted
  material has emissive intensity 1, a converted object has \<^verbatim>\<open>render\<close> true, and a converted
  viewport has the active camera \<^verbatim>\<open>null\<close>, exactly when the source field is absent,
  \<^verbatim>\<open>undefined\<close> or \<^verbatim>\<open>null\<close>. Any other value that is present is kept as it is, the falsy
  0, \<^verbatim>\<open>false\<close> and empty string included.
\<close>

theorem defaults_on_nullish:
  "(t3dToMaterial m = Inr mat \<and> get m ''emissiveIntensity'' = Inr v \<longrightarrow>
      material_emissiveIntensity mat = (if v = Undefined \<or> v = Null then Num 1 else v))
 \<and> (t3dToSceneObject ob = Inr obj \<and> get ob ''render'' = Inr w \<longrightarrow>
      object_render obj = (if w = Undefined \<or> w = Null then Bool True else w))
 \<and> (t3dToViewport vp = Inr view \<and> get vp ''activeCameraObjectId'' = Inr u \<longrightarrow>
      viewport_activeCameraObjectId view = (if u = Undefined \<or> u = Null then Null else u))"
proof (intro conjI impI)
  assume "t3dToMaterial m = Inr mat \<and> get m ''emissiveIntensity'' = Inr v"
  then show "material_emissiveIntensity mat = (if v = Undefined \<or> v = Null then Num 1 else v)"
    by (cases v) (auto simp: t3dToMaterial_def bindE_Inr_iff nullish_coalesce_def)
next
  assume "t3dToSceneObject ob = Inr obj \<and> get ob ''render'' = Inr w"
  then show "object_render obj = (if w = Undefined \<or> w = Null then Bool True else w)"
    by (cases w) (auto simp: t3dToSceneObject_def bindE_Inr_iff nullish_coalesce_def)
next
  assume "t3dToViewport vp = Inr view \<and> get vp ''activeCameraObjectId'' = Inr u"
  then show "viewport_activeCameraObjectId view = (if u = Undefined \<or> u = Null then Null else u)"
    by (cases u) (auto simp: t3dToViewport_def bindE_Inr_iff nullish_coalesce_def)
qed

theorem defaults_on_nullish_witness:
  "(case t3dToMaterial (sample_material [(''emissiveIntensity'', Num 0)]) of
      Inl e \<Rightarrow> False | Inr mat \<Rightarrow> material_emissiveIntensity mat = Num 0)
 \<and> (case t3dToMaterial (sample_material []) of
      Inl e \<Rightarrow> False | Inr mat \<Rightarrow> material_emissiveIntensity mat = Num 1)
 \<and> (case t3dToSceneObject (sample_object [(''render'', Bool False)]) of
      Inl e \<Rightarrow> False | Inr obj \<Rightarrow> object_render obj = Bool False)
 \<and> (case t3dToViewport (sample_viewport []) of
      Inl e \<Rightarrow> False | Inr view \<Rightarrow> viewport_activeCameraObjectId view = Null)"
proof -
  have ok: "case t3dToMaterial (sample_material [(''emissiveIntensity'', Num 0)]) of
      Inl e \<Rightarrow> False | Inr mat \<Rightarrow> True"
    "case t3dToMaterial (sample_material []) of Inl e \<Rightarrow> False | Inr mat \<Rightarrow> True"
    "case t3dToSceneObject (sample_object [(''render'', Bool False)]) of
      Inl e \<Rightarrow> False | Inr obj \<Rightarrow> True"
    "case t3dToViewport (sample_viewport []) of Inl e \<Rightarrow> False | Inr view \<Rightarrow> True"
    by code_simp+
  have g: "get (sample_material [(''emissiveIntensity'', Num 0)]) ''emissiveIntensity'' = Inr (Num 0)"
    "get (sample_material []) ''emissiveIntensity'' = Inr Undefined"
    "get (sample_object [(''render'', Bool False)]) ''render'' = Inr (Bool False)"
    "get (sample_viewport []) ''activeCameraObjectId'' = Inr Undefined"
    by (simp_all add: get_def sample_material_def sample_object_def sample_viewport_def)
  from ok obtain m0 m1 ob vw where r:
    "t3dToMaterial (sample_material [(''emissiveIntensity'', Num 0)]) = Inr m0"
    "t3dToMaterial (sample_material []) = Inr m1"
    "t3dToSceneObject (sample_object [(''render'', Bool False)]) = Inr ob"
    "t3dToViewport (sample_viewport []) = Inr vw"
    by (auto split: sum.splits)
  from defaults_on_nullish [of "sample_material [(''emissiveIntensity'', Num 0)]" m0 "Num 0"
      "sample_object [(''render'', Bool False)]" ob "Bool False" "sample_viewport []" vw Undefined]
    defaults_on_nullish [of "sample_material []" m1 Undefined
      "sample_object [(''render'', Bool False)]" ob "Bool False" "sample_viewport []" vw Undefined]
    g r
  show ?thesis by simp
qed

text \<open>
  The claim as written applies a default only to an absent or \<^verbatim>\<open>undefined\<close> field and
  never to a field present with a falsy value. A material whose \<^verbatim>\<open>emissiveIntensity\<close> is
  \<^verbatim>\<open>null\<close> has the field, with a falsy value, and is converted with intensity 1.
\<close>

theorem null_emissiveIntensity_counterexample:
  "get (sample_material [(''emissiveIntensity'', Null)]) ''emissiveIntensity'' = Inr Null
   \<and> Null \<noteq> Undefined \<and> \<not> truthy Null
   \<and> map_sum id material_emissiveIntensity
         (t3dToMaterial (sample_material [(''emissiveIntensity'', Null)])) = Inr (Num 1)"
  by code_simp

section \<open>Defensive copies\<close>

lemma independent_copyI:
  assumes "present h src" and "h' = h @ hs" and "cpy = length h + i" and "i < length hs"
    and "hs ! i = elements h src"
  shows "independent_copy h h' src cpy"
  using assms
  by (auto simp: independent_copy_def present_def elements_def mutate_def nth_append
      nth_list_update)

lemma spread_array_eq:
  "spread_array src h = (cpy, h') \<longleftrightarrow> cpy = length h \<and> h' = h @ [elements h src]"
  by (auto simp: spread_array_def new_array_def)

lemma elements_append: "present h a \<Longrightarrow> elements (h @ hs) a = elements h a"
  by (simp add: present_def elements_def nth_append)

lemma present_append: "present h a \<Longrightarrow> present (h @ hs) a"
  by (simp add: present_def)

lemma map_ref_spread:
  assumes f: "\<And>x h. f x h = (case spread_array (src x) h of (a, h') \<Rightarrow> (g x a, h'))"
    and cpy: "\<And>x a. cpy (g x a) = a"
  shows "map_ref f xs h = (ys, h') \<Longrightarrow> (\<forall>x\<in>set xs. present h (src x)) \<Longrightarrow>
     h' = h @ map (\<lambda>x. elements h (src x)) xs \<and> length ys = length xs
     \<and> (\<forall>i<length xs. cpy (ys ! i) = length h + i)"
proof (induction xs arbitrary: h ys h')
  case Nil
  then show ?case by simp
next
  case (Cons x xs)
  define h1 where "h1 = h @ [elements h (src x)]"
  have fx: "f x h = (g x (length h), h1)"
    by (simp add: f spread_array_def new_array_def h1_def)
  obtain bs h2 where rest: "map_ref f xs h1 = (bs, h2)"
    by (cases "map_ref f xs h1")
  with fx Cons.prems(1) have ys: "ys = g x (length h) # bs" and h2: "h' = h2"
    by simp_all
  have pres: "\<forall>y\<in>set xs. present h1 (src y)"
    using Cons.prems(2) by (simp add: h1_def present_append)
  from Cons.IH [OF rest pres]
  have ih: "h2 = h1 @ map (\<lambda>y. elements h1 (src y)) xs" "length bs = length xs"
    "\<forall>i<length xs. cpy (bs ! i) = length h1 + i"
    by simp_all
  have "map (\<lambda>y. elements h1 (src y)) xs = map (\<lambda>y. elements h (src y)) xs"
    using Cons.prems(2) by (simp add: h1_def elements_append)
  with ih(1) have "h' = h @ map (\<lambda>y. elements h (src y)) (x # xs)"
    by (simp add: h2 h1_def)
  moreover have "length ys = length (x # xs)"
    using ih(2) ys by simp
  moreover have "cpy (ys ! i) = length h + i" if "i < length (x # xs)" for i
  proof (cases i)
    case 0
    then show ?thesis by (simp add: ys cpy)
  next
    case (Suc j)
    with that ih(3) show ?thesis by (simp add: ys h1_def)
  qed
  ultimately show ?case by blast
qed

lemma map_ref_independent:
  assumes "h' = h @ map (\<lambda>x. elements h (src x)) xs @ hs"
    and "\<forall>x\<in>set xs. present h (src x)"
    and "i < length xs" and "c = length h + i"
  shows "independent_copy h h' (src (xs ! i)) c"
proof (rule independent_copyI)
  show "present h (src (xs ! i))" using assms(2,3) by simp
  show "h' = h @ (map (\<lambda>x. elements h (src x)) xs @ hs)" using assms(1) by simp
  show "c = length h + i" by (rule assms(4))
  show "i < length (map (\<lambda>x. elements h (src x)) xs @ hs)" using assms(3) by simp
  show "(map (\<lambda>x. elements h (src x)) xs @ hs) ! i = elements h (src (xs ! i))"
    using assms(3) by (simp add: nth_append)
qed

lemma edge_ref_refines:
  assumes "present h (eref_vertexIds e)" and "present h (eref_faceIds e)"
    and "t3dToEdge_ref e h = (e', h')"
  shows "t3dToEdge (edge_doc h e) = Inr (edge_read h' e')"
  using assms
  by (auto simp: t3dToEdge_ref_def spread_array_def new_array_def t3dToEdge_def edge_doc_def
      edge_read_def get_def spread_def elements_def present_def nth_append)

lemma t3dToVector3_doc: "t3dToVector3 (vector3_doc v) = Inr v"
  by (simp add: t3dToVector3_def vector3_doc_def get_def)

lemma t3dToTransform_doc: "t3dToTransform (transform_doc t) = Inr t"
  by (simp add: t3dToTransform_def transform_doc_def get_def t3dToVector3_doc)

lemma face_ref_refines:
  assumes "present h (fref_vertexIds f)"
    and "t3dToFace_ref f h = (f', h')"
  shows "t3dToFace (face_doc h f) = Inr (face_read h' f')"
  using assms
  by (auto simp: t3dToFace_ref_def spread_array_def new_array_def t3dToFace_def face_doc_def
      face_read_def get_def spread_def elements_def present_def nth_append t3dToVector3_doc)

lemma object_ref_refines:
  assumes "present h (oref_children ob)"
    and "t3dToSceneObject_ref ob h = (ob', h')"
  shows "t3dToSceneObject (object_doc h ob) = Inr (object_read h' ob')"
  using assms
  by (auto simp: t3dToSceneObject_ref_def spread_array_def new_array_def t3dToSceneObject_def
      object_doc_def object_read_def get_def spread_def elements_def present_def nth_append
      t3dToTransform_doc)


lemma map_edges_ref:
  assumes "map_ref t3dToEdge_ref es h = (es', h')"
    and "\<forall>e\<in>set es. present h (eref_faceIds e)"
  shows "h' = h @ map (\<lambda>e. elements h (eref_faceIds e)) es \<and> length es' = length es
     \<and> (\<forall>i<length es. eref_faceIds (es' ! i) = length h + i)"
  by (rule map_ref_spread [where src = eref_faceIds and cpy = eref_faceIds
        and g = "\<lambda>edge a. \<lparr>eref_id = eref_id edge, eref_vertexIds = eref_vertexIds edge,
            eref_faceIds = a, eref_selected = eref_selected edge\<rparr>", OF _ _ assms])
     (simp_all add: t3dToEdge_ref_def)

lemma map_faces_ref:
  assumes "map_ref t3dToFace_ref fs h = (fs', h')"
    and "\<forall>f\<in>set fs. present h (fref_vertexIds f)"
  shows "h' = h @ map (\<lambda>f. elements h (fref_vertexIds f)) fs \<and> length fs' = length fs
     \<and> (\<forall>i<length fs. fref_vertexIds (fs' ! i) = length h + i)"
  by (rule map_ref_spread [where src = fref_vertexIds and cpy = fref_vertexIds
        and g = "\<lambda>face a. \<lparr>fref_id = fref_id face, fref_vertexIds = a,
            fref_normal = fref_normal face, fref_materialId = fref_materialId face,
            fref_selected = fref_selected face\<rparr>", OF _ _ assms])
     (simp_all add: t3dToFace_ref_def)

text \<open>
  Claim C8. Converting a mesh whose edges' \<^verbatim>\<open>faceIds\<close> and faces' \<^verbatim>\<open>vertexIds\<close> are arrays
  of the store gives as many edges and faces, and each converted \<^verbatim>\<open>faceIds\<close> and
  \<^verbatim>\<open>vertexIds\<close> is an independent copy of the document's: a new array with the same
  elements in the same order, such that no array of the document is changed by the
  conversion or by a later write to the copy, and the copy is not changed by a later
  write to an array of the document. The same holds of the \<^verbatim>\<open>children\<close> of a converted
  object.
\<close>

theorem defensive_copies:
  "(t3dToMesh_ref t3dMesh h = (mesh, h')
      \<and> (\<forall>e \<in> set (mref_edges t3dMesh). present h (eref_faceIds e))
      \<and> (\<forall>f \<in> set (mref_faces t3dMesh). present h (fref_vertexIds f)) \<longrightarrow>
        length (mref_edges mesh) = length (mref_edges t3dMesh)
      \<and> length (mref_faces mesh) = length (mref_faces t3dMesh)
      \<and> (\<forall>i < length (mref_edges t3dMesh).
            independent_copy h h' (eref_faceIds (mref_edges t3dMesh ! i))
              (eref_faceIds (mref_edges mesh ! i)))
      \<and> (\<forall>j < length (mref_faces t3dMesh).
            independent_copy h h' (fref_vertexIds (mref_faces t3dMesh ! j))
              (fref_vertexIds (mref_faces mesh ! j))))
 \<and> (t3dToSceneObject_ref t3dObject k = (ob, k') \<and> present k (oref_children t3dObject) \<longrightarrow>
        independent_copy k k' (oref_children t3dObject) (oref_children ob))"
proof (intro conjI impI)
  assume a: "t3dToMesh_ref t3dMesh h = (mesh, h')
      \<and> (\<forall>e \<in> set (mref_edges t3dMesh). present h (eref_faceIds e))
      \<and> (\<forall>f \<in> set (mref_faces t3dMesh). present h (fref_vertexIds f))"
  let ?es = "mref_edges t3dMesh" and ?fs = "mref_faces t3dMesh"
  obtain es' h1 where e: "map_ref t3dToEdge_ref ?es h = (es', h1)"
    by (cases "map_ref t3dToEdge_ref ?es h")
  obtain fs' h2 where f: "map_ref t3dToFace_ref ?fs h1 = (fs', h2)"
    by (cases "map_ref t3dToFace_ref ?fs h1")
  from a e f have m: "mref_edges mesh = es'" "mref_faces mesh = fs'" "h' = h2"
    by (auto simp: t3dToMesh_ref_def)
  from a have pe: "\<forall>e\<in>set ?es. present h (eref_faceIds e)"
    and pf: "\<forall>f\<in>set ?fs. present h (fref_vertexIds f)" by simp_all
  from map_edges_ref [OF e pe]
  have h1: "h1 = h @ map (\<lambda>e. elements h (eref_faceIds e)) ?es"
    and le: "length es' = length ?es"
    and ce: "\<forall>i<length ?es. eref_faceIds (es' ! i) = length h + i"
    by simp_all
  have pf1: "\<forall>f\<in>set ?fs. present h1 (fref_vertexIds f)"
    using pf by (simp add: h1 present_append)
  from map_faces_ref [OF f pf1]
  have h2': "h2 = h1 @ map (\<lambda>f. elements h1 (fref_vertexIds f)) ?fs"
    and lf: "length fs' = length ?fs"
    and cf: "\<forall>j<length ?fs. fref_vertexIds (fs' ! j) = length h1 + j"
    by simp_all
  have same: "map (\<lambda>f. elements h1 (fref_vertexIds f)) ?fs
      = map (\<lambda>f. elements h (fref_vertexIds f)) ?fs"
    using pf by (simp add: h1 elements_append)
  have h2: "h' = h @ map (\<lambda>e. elements h (eref_faceIds e)) ?es
      @ map (\<lambda>f. elements h (fref_vertexIds f)) ?fs"
    using h2' same by (simp add: m h1)
  show "length (mref_edges mesh) = length ?es" by (simp add: m le)
  show "length (mref_faces mesh) = length ?fs" by (simp add: m lf)
  show "\<forall>i < length ?es.
            independent_copy h h' (eref_faceIds (?es ! i)) (eref_faceIds (mref_edges mesh ! i))"
  proof (intro allI impI)
    fix i assume i: "i < length ?es"
    from ce i have "eref_faceIds (mref_edges mesh ! i) = length h + i" by (simp add: m)
    from map_ref_independent [where src = eref_faceIds, OF h2 pe i this]
    show "independent_copy h h' (eref_faceIds (?es ! i)) (eref_faceIds (mref_edges mesh ! i))" .
  qed
  show "\<forall>j < length ?fs.
            independent_copy h h' (fref_vertexIds (?fs ! j)) (fref_vertexIds (mref_faces mesh ! j))"
  proof (intro allI impI)
    fix j assume j: "j < length ?fs"
    show "independent_copy h h' (fref_vertexIds (?fs ! j)) (fref_vertexIds (mref_faces mesh ! j))"
    proof (rule independent_copyI)
      show "present h (fref_vertexIds (?fs ! j))" using pf j by simp
      show "h' = h @ (map (\<lambda>e. elements h (eref_faceIds e)) ?es
          @ map (\<lambda>f. elements h (fref_vertexIds f)) ?fs)" using h2 by simp
      show "fref_vertexIds (mref_faces mesh ! j) = length h + (length ?es + j)"
        using cf j by (simp add: m h1)
      show "length ?es + j < length (map (\<lambda>e. elements h (eref_faceIds e)) ?es
          @ map (\<lambda>f. elements h (fref_vertexIds f)) ?fs)" using j by simp
      show "(map (\<lambda>e. elements h (eref_faceIds e)) ?es
          @ map (\<lambda>f. elements h (fref_vertexIds f)) ?fs) ! (length ?es + j)
          = elements h (fref_vertexIds (?fs ! j))"
        using j by (simp add: nth_append)
    qed
  qed
next
  assume a: "t3dToSceneObject_ref t3dObject k = (ob, k') \<and> present k (oref_children t3dObject)"
  then have "oref_children ob = length k + 0" "k' = k @ [elements k (oref_children t3dObject)]"
    by (auto simp: t3dToSceneObject_ref_def spread_array_def new_array_def)
  with a show "independent_copy k k' (oref_children t3dObject) (oref_children ob)"
    by (intro independent_copyI [where i = 0 and hs = "[elements k (oref_children t3dObject)]"])
       simp_all
qed

theorem defensive_copies_witness:
  "map eref_faceIds (mref_edges (fst (t3dToMesh_ref sample_mesh_ref sample_arrays))) = [4]
   \<and> map fref_vertexIds (mref_faces (fst (t3dToMesh_ref sample_mesh_ref sample_arrays))) = [5]
   \<and> oref_children (fst (t3dToSceneObject_ref sample_object_ref sample_arrays)) = 4
   \<and> elements (snd (t3dToMesh_ref sample_mesh_ref sample_arrays)) 4 = [Str ''f1'', Str ''f2'']
   \<and> elements (snd (t3dToMesh_ref sample_mesh_ref sample_arrays)) 5
        = [Str ''v1'', Str ''v2'', Str ''v3'']
   \<and> elements (mutate 4 [Str ''f9''] (snd (t3dToMesh_ref sample_mesh_ref sample_arrays))) 1
        = [Str ''f1'', Str ''f2'']
   \<and> elements (mutate 1 [] (snd (t3dToMesh_ref sample_mesh_ref sample_arrays))) 4
        = [Str ''f1'', Str ''f2'']
   \<and> elements (mutate 4 [] (snd (t3dToSceneObject_ref sample_object_ref sample_arrays))) 3
        = [Str ''obj2'']"
proof -
  obtain mesh h' where m: "t3dToMesh_ref sample_mesh_ref sample_arrays = (mesh, h')"
    by (cases "t3dToMesh_ref sample_mesh_ref sample_arrays")
  obtain ob k' where ob: "t3dToSceneObject_ref sample_object_ref sample_arrays = (ob, k')"
    by (cases "t3dToSceneObject_ref sample_object_ref sample_arrays")
  have p: "\<forall>e \<in> set (mref_edges sample_mesh_ref). present sample_arrays (eref_faceIds e)"
    "\<forall>f \<in> set (mref_faces sample_mesh_ref). present sample_arrays (fref_vertexIds f)"
    "present sample_arrays (oref_children sample_object_ref)"
    by (simp_all add: sample_mesh_ref_def sample_object_ref_def sample_arrays_def present_def)
  have a: "map eref_faceIds (mref_edges (fst (t3dToMesh_ref sample_mesh_ref sample_arrays))) = [4]"
    "map fref_vertexIds (mref_faces (fst (t3dToMesh_ref sample_mesh_ref sample_arrays))) = [5]"
    "oref_children (fst (t3dToSceneObject_ref sample_object_ref sample_arrays)) = 4"
    by code_simp+
  with m ob have addr: "eref_faceIds (mref_edges mesh ! 0) = 4"
    "fref_vertexIds (mref_faces mesh ! 0) = 5" "oref_children ob = 4"
    by (auto simp: map_eq_Cons_conv)
  have src: "eref_faceIds (mref_edges sample_mesh_ref ! 0) = 1"
    "fref_vertexIds (mref_faces sample_mesh_ref ! 0) = 2"
    "oref_children sample_object_ref = 3"
    "length (mref_edges sample_mesh_ref) = 1" "length (mref_faces sample_mesh_ref) = 1"
    by (simp_all add: sample_mesh_ref_def sample_object_ref_def)
  have el: "elements sample_arrays 1 = [Str ''f1'', Str ''f2'']"
    "elements sample_arrays 2 = [Str ''v1'', Str ''v2'', Str ''v3'']"
    "elements sample_arrays 3 = [Str ''obj2'']"
    "present sample_arrays 1" "present sample_arrays 3"
    by (simp_all add: sample_arrays_def elements_def present_def)
  from defensive_copies [of sample_mesh_ref sample_arrays mesh h' sample_object_ref
      sample_arrays ob k'] m ob p
  have "independent_copy sample_arrays h' (eref_faceIds (mref_edges sample_mesh_ref ! 0))
          (eref_faceIds (mref_edges mesh ! 0))"
    "independent_copy sample_arrays h' (fref_vertexIds (mref_faces sample_mesh_ref ! 0))
          (fref_vertexIds (mref_faces mesh ! 0))"
    "independent_copy sample_arrays k' (oref_children sample_object_ref) (oref_children ob)"
    using src(4,5) by simp_all
  then have "independent_copy sample_arrays h' 1 4" "independent_copy sample_arrays h' 2 5"
    "independent_copy sample_arrays k' 3 4"
    by (simp_all add: addr src)
  then have "elements h' 4 = [Str ''f1'', Str ''f2'']"
    "elements h' 5 = [Str ''v1'', Str ''v2'', Str ''v3'']"
    "elements (mutate 4 [Str ''f9''] h') 1 = [Str ''f1'', Str ''f2'']"
    "elements (mutate 1 [] h') 4 = [Str ''f1'', Str ''f2'']"
    "elements (mutate 4 [] k') 3 = [Str ''obj2'']"
    using el by (simp_all add: independent_copy_def)
  with a m ob show ?thesis by simp
qed

text \<open>
  The spread is what makes the copy: \<^verbatim>\<open>edge.vertexIds\<close>, which line 91 passes on without
  one, is the document's own array, and a write through the converted edge shows in
  the document.
\<close>

lemma edge_vertexIds_shared:
  assumes "t3dToEdge_ref edge h = (edge', h')" and "present h (eref_vertexIds edge)"
  shows "eref_vertexIds edge' = eref_vertexIds edge"
    and "elements (mutate (eref_vertexIds edge') xs h') (eref_vertexIds edge) = xs"
  using assms
  by (auto simp: t3dToEdge_ref_def spread_array_def new_array_def elements_def mutate_def
      present_def nth_append)

end
